theory Spec2Isabelle
  imports Complex_Main
begin

section \<open>The training driver \<^verbatim>\<open>conditioned_main.py\<close>\<close>

text \<open>
  The driver is a single Python script: it parses its options, seeds the random sources,
  splits two orientation datasets, builds the loaders, the model and the loss, draws three
  visualisation indices and runs the epoch loop. The tensor framework, the dataset class,
  the two networks, the losses and the joined loader are collaborators of the script; they
  enter the model as the fields of one record of functions (\<open>lib\<close> below), so that every
  statement proved here holds for whatever those collaborators compute.
\<close>

subsection \<open>Python values and exceptions\<close>

datatype py_error =
    TypeError
  | ZeroDivisionError
  | ValueError
  | IndexError
  | AssertionError
  | NameError string
  | SystemExit int
  | OtherError string

text \<open>
  An option declared without \<^verbatim>\<open>type=\<close> keeps its default as written in the script and
  holds the raw command-line string when it is given: such a value is an int or a str.
\<close>

datatype pyval = PyInt int | PyStr string

text \<open>
  \<^verbatim>\<open>a % b\<close> for an int \<open>a\<close>: a str on the right is a TypeError, a zero int a
  ZeroDivisionError; otherwise the result has the sign of the divisor, as \<open>mod\<close> on
  \<open>int\<close> has.
\<close>

definition py_mod :: "int \<Rightarrow> pyval \<Rightarrow> py_error + int" where
  "py_mod a b =
     (case b of
        PyStr s \<Rightarrow> Inl TypeError
      | PyInt k \<Rightarrow> if k = 0 then Inl ZeroDivisionError else Inr (a mod k))"

text \<open>\<^verbatim>\<open>str(n)\<close> and \<^verbatim>\<open>'{}'.format(n)\<close> for an int: decimal digits, a leading minus sign.\<close>

definition digit_char :: "nat \<Rightarrow> char" where
  "digit_char d = ''0123456789'' ! d"

fun str_of_nat :: "nat \<Rightarrow> string" where
  "str_of_nat n =
     (if n < 10 then [digit_char n] else str_of_nat (n div 10) @ [digit_char (n mod 10)])"

declare str_of_nat.simps [simp del]

definition str_of_int :: "int \<Rightarrow> string" where
  "str_of_int i = (if i < 0 then CHR ''-'' # str_of_nat (nat (- i)) else str_of_nat (nat i))"

text \<open>\<^verbatim>\<open>os.path.join(a, b)\<close> of posixpath, for two components.\<close>

definition path_join :: "string \<Rightarrow> string \<Rightarrow> string" where
  "path_join a b =
     (if take 1 b = ''/'' then b
      else if a = [] \<or> last a = CHR ''/'' then a @ b
      else a @ ''/'' @ b)"

subsection \<open>The options: lines 17 to 33\<close>

text \<open>
  The namespace \<^verbatim>\<open>opt\<close>. Floats are values of an abstract type \<open>'f\<close>. The field
  \<open>manual_seed\<close> is \<open>None\<close> when the option is absent; \<open>checkpoint_every\<close> is declared
  without a type.
\<close>

record 'f options =
  batch_size :: int
  epochs :: int
  lr :: 'f
  cuda :: bool
  cuda_idx :: int
  manual_seed :: "int option"
  logdir :: string
  run_tag :: string
  checkpoint_every :: pyval
  checkpoint_dir :: string
  final_dir :: string
  model_type :: string
  loss :: string
  gamma :: 'f
  data_path :: string

text \<open>
  The command line, one field per option: \<open>None\<close> when the option is not given. Options
  declared with \<^verbatim>\<open>type=int\<close> or \<^verbatim>\<open>type=float\<close> arrive converted (a string that does not
  convert makes argparse exit before anything else runs, which is not modelled); the others
  arrive as the raw string.
\<close>

record 'f argv =
  arg_batch_size :: "int option"
  arg_epochs :: "int option"
  arg_lr :: "'f option"
  arg_cuda :: bool
  arg_cuda_idx :: "int option"
  arg_manual_seed :: "int option"
  arg_logdir :: "string option"
  arg_run_tag :: "string option"
  arg_checkpoint_every :: "string option"
  arg_checkpoint_dir :: "string option"
  arg_final_dir :: "string option"
  arg_model_type :: "string option"
  arg_loss :: "string option"
  arg_gamma :: "'f option"
  arg_data_path :: "string option"

definition model_type_choices :: "string list" where
  "model_type_choices = [''can32'', ''unet'']"

definition loss_choices :: "string list" where
  "loss_choices = [''mse'', ''mae'', ''l1nima'', ''l2nima'', ''l1ssim'', ''colorssim'']"

text \<open>
  An option with \<^verbatim>\<open>choices\<close>: a given value outside the list is an argparse error
  (exit status 2); the default is taken as it is.
\<close>

definition check_choice :: "string list \<Rightarrow> string \<Rightarrow> string option \<Rightarrow> py_error + string" where
  "check_choice choices dflt given =
     (case given of
        None \<Rightarrow> Inr dflt
      | Some v \<Rightarrow> if v \<in> set choices then Inr v else Inl (SystemExit 2))"

definition or_default :: "'a \<Rightarrow> 'a option \<Rightarrow> 'a" where
  "or_default dflt given = (case given of None \<Rightarrow> dflt | Some v \<Rightarrow> v)"

text \<open>
  \<^verbatim>\<open>parser.parse_args()\<close>. The two float defaults (\<^verbatim>\<open>2e-4\<close> and \<^verbatim>\<open>0.001\<close>) are
  parameters.
\<close>

definition parse_args :: "'f \<Rightarrow> 'f \<Rightarrow> 'f argv \<Rightarrow> py_error + 'f options" where
  "parse_args lr_default gamma_default a =
     (case check_choice model_type_choices ''can32'' (arg_model_type a) of
        Inl e \<Rightarrow> Inl e
      | Inr mt \<Rightarrow>
     (case check_choice loss_choices ''mse'' (arg_loss a) of
        Inl e \<Rightarrow> Inl e
      | Inr lo \<Rightarrow>
          Inr \<lparr> batch_size = or_default 8 (arg_batch_size a),
                epochs = or_default 100 (arg_epochs a),
                lr = or_default lr_default (arg_lr a),
                cuda = arg_cuda a,
                cuda_idx = or_default 1 (arg_cuda_idx a),
                manual_seed = arg_manual_seed a,
                logdir = or_default ''log'' (arg_logdir a),
                run_tag = or_default '''' (arg_run_tag a),
                checkpoint_every =
                  (case arg_checkpoint_every a of None \<Rightarrow> PyInt 10 | Some s \<Rightarrow> PyStr s),
                checkpoint_dir = or_default ''checkpoints'' (arg_checkpoint_dir a),
                final_dir = or_default ''final_models'' (arg_final_dir a),
                model_type = mt,
                loss = lo,
                gamma = or_default gamma_default (arg_gamma a),
                data_path = or_default ''/home/iacv3_1/fivek'' (arg_data_path a) \<rparr>))"

subsection \<open>Model and loss selection: lines 86 to 106\<close>

datatype model_cls = ConditionalCAN | ConditionalUNet

datatype 'f criterion_cls =
    MSELoss
  | L1Loss
  | NimaLoss string 'f "'f criterion_cls"
  | ColorSSIM string "string option"

text \<open>
  A module-level name is unbound until a statement assigns it: \<open>None\<close> is the unbound
  name. The chained \<^verbatim>\<open>if\<close> statements are independent (none is an \<^verbatim>\<open>elif\<close>), each
  one rebinding the name when its test holds.
\<close>

definition select_model :: "string \<Rightarrow> model_cls option" where
  "select_model mt =
     (let model = None;
          model = (if mt = ''can32'' then Some ConditionalCAN else model);
          model = (if mt = ''unet'' then Some ConditionalUNet else model)
      in model)"

definition select_criterion :: "string \<Rightarrow> 'f \<Rightarrow> string \<Rightarrow> 'f criterion_cls option" where
  "select_criterion device g lo =
     (let criterion = None;
          criterion = (if lo = ''mse'' then Some MSELoss else criterion);
          criterion = (if lo = ''mae'' then Some L1Loss else criterion);
          criterion = (if lo = ''l1nima'' then Some (NimaLoss device g L1Loss) else criterion);
          criterion = (if lo = ''l2nima'' then Some (NimaLoss device g MSELoss) else criterion);
          criterion = (if lo = ''l1ssim'' then Some (ColorSSIM device (Some ''l1'')) else criterion);
          criterion = (if lo = ''colorssim'' then Some (ColorSSIM device None) else criterion)
      in criterion)"

text \<open>
  \<^verbatim>\<open>assert name\<close>: evaluating an unbound name raises NameError inside the assert
  statement; a bound name is tested for truth, and a false object is an AssertionError.
  \<open>truth\<close> is \<^verbatim>\<open>bool()\<close> of the object.
\<close>

definition assert_name :: "('a \<Rightarrow> bool) \<Rightarrow> string \<Rightarrow> 'a option \<Rightarrow> py_error + 'a" where
  "assert_name truth name v =
     (case v of
        None \<Rightarrow> Inl (NameError name)
      | Some x \<Rightarrow> if truth x then Inr x else Inl AssertionError)"

text \<open>
  The right-hand side of the assignment that fired is a constructor call, which may raise
  and may draw from the generator; when no conditional fired nothing is called and the
  name stays unbound.
\<close>

definition construct ::
  "('c \<Rightarrow> 'g \<Rightarrow> py_error + ('m \<times> 'g)) \<Rightarrow> 'c option \<Rightarrow> 'g \<Rightarrow> py_error + ('m option \<times> 'g)" where
  "construct ctor selected g =
     (case selected of
        None \<Rightarrow> Inr (None, g)
      | Some cls \<Rightarrow>
          (case ctor cls g of
             Inl e \<Rightarrow> Inl e
           | Inr (x, g') \<Rightarrow> Inr (Some x, g')))"

definition device_of :: "'f options \<Rightarrow> string" where
  "device_of cfg = (if cuda cfg then ''cuda:'' @ str_of_int (cuda_idx cfg) else ''cpu'')"

subsection \<open>Datasets and the 80/20 split: lines 65 to 75\<close>

text \<open>
  A dataset object is represented by the arguments that select it and by its length: the
  driver takes \<^verbatim>\<open>len()\<close> of it and passes it on; the samples are read by the loaders.
  (The arguments \<^verbatim>\<open>expert_idx\<close>, \<^verbatim>\<open>transform\<close> and \<^verbatim>\<open>use_features\<close> are constants of
  the script and only shape the samples.) How many samples a directory holds for an
  orientation is a parameter.
\<close>

record fivek_dataset =
  root :: string
  filter_ratio :: string
  ds_len :: nat

definition FivekDataset ::
  "(string \<Rightarrow> string \<Rightarrow> py_error + nat) \<Rightarrow> string \<Rightarrow> string \<Rightarrow> py_error + fivek_dataset" where
  "FivekDataset count path ratio =
     (case count path ratio of
        Inl e \<Rightarrow> Inl e
      | Inr n \<Rightarrow> Inr \<lparr> root = path, filter_ratio = ratio, ds_len = n \<rparr>)"

text \<open>\<^verbatim>\<open>Subset\<close> of the tensor library: a dataset and the indices it keeps.\<close>

record subset =
  dataset :: fivek_dataset
  indices :: "nat list"

text \<open>\<^verbatim>\<open>xs[i:j]\<close>: a negative bound counts from the end, both bounds are clamped.\<close>

definition py_slice :: "'a list \<Rightarrow> int \<Rightarrow> int \<Rightarrow> 'a list" where
  "py_slice xs i j =
     (let n = int (length xs);
          lo = (if i < 0 then max 0 (n + i) else min n i);
          hi = (if j < 0 then max 0 (n + j) else min n j)
      in take (nat (hi - lo)) (drop (nat lo) xs))"

text \<open>
  \<^verbatim>\<open>random_split(dataset, [a, b])\<close> of the tensor library: the lengths must sum to the
  length of the dataset; one random permutation of that many indices is cut at the
  accumulated offsets \<open>a\<close> and \<open>a + b\<close>. The permutation is drawn by \<open>randperm\<close> from
  the generator state \<open>g\<close>; it is given as a function, read at \<open>0 ..< a + b\<close>.
\<close>

definition random_split ::
  "('g \<Rightarrow> nat \<Rightarrow> (nat \<Rightarrow> nat) \<times> 'g) \<Rightarrow> 'g \<Rightarrow> fivek_dataset \<Rightarrow> int \<Rightarrow> int
     \<Rightarrow> py_error + ((subset \<times> subset) \<times> 'g)" where
  "random_split randperm g ds a b =
     (if a + b = int (ds_len ds) then
        (let (perm, g') = randperm g (nat (a + b));
             idxs = map perm [0..<nat (a + b)]
         in Inr ((\<lparr> dataset = ds, indices = py_slice idxs (a - a) a \<rparr>,
                  \<lparr> dataset = ds, indices = py_slice idxs (a + b - b) (a + b) \<rparr>), g'))
      else Inl ValueError)"

text \<open>
  \<^verbatim>\<open>int(0.8 * len(dataset))\<close>. The product is taken over the reals: the script computes
  it in binary floating point, whose rounding is not modelled.
\<close>

definition train_size_of :: "nat \<Rightarrow> int" where
  "train_size_of n = \<lfloor>0.8 * real n\<rfloor>"

text \<open>Lines 69 to 71, and again lines 73 to 75 for the other orientation.\<close>

definition split_dataset ::
  "('g \<Rightarrow> nat \<Rightarrow> (nat \<Rightarrow> nat) \<times> 'g) \<Rightarrow> 'g \<Rightarrow> fivek_dataset
     \<Rightarrow> py_error + ((subset \<times> subset) \<times> 'g)" where
  "split_dataset randperm g ds =
     (let train_size = train_size_of (ds_len ds);
          test_size = int (ds_len ds) - train_size
      in random_split randperm g ds train_size test_size)"

text \<open>
  \<^verbatim>\<open>random.sample(range(n), k)\<close>: a ValueError when the sample is larger than the
  population, \<open>k\<close> draws otherwise.
\<close>

definition sample_range ::
  "('g \<Rightarrow> nat \<Rightarrow> nat \<Rightarrow> (nat \<Rightarrow> nat) \<times> 'g) \<Rightarrow> 'g \<Rightarrow> nat \<Rightarrow> nat \<Rightarrow> py_error + (nat list \<times> 'g)" where
  "sample_range pick g n k =
     (if k \<le> n then (let (f, g') = pick g n k in Inr (map f [0..<k], g'))
      else Inl ValueError)"

subsection \<open>Loaders\<close>

text \<open>
  A \<^verbatim>\<open>DataLoader\<close> of the tensor library has a fixed number of batches and yields that
  many in every pass; which batch comes at which place of which pass is decided by its
  shuffling. \<open>batch_at d e i\<close> is batch \<open>i\<close> of the pass made in epoch \<open>e\<close>.
\<close>

record 'b dataloader =
  n_batches :: nat
  batch_at :: "nat \<Rightarrow> nat \<Rightarrow> 'b"

definition dl_iter :: "'b dataloader \<Rightarrow> nat \<Rightarrow> 'b list" where
  "dl_iter d epoch = map (batch_at d epoch) [0..<n_batches d]"

text \<open>
  What the driver uses of the joined loader: \<^verbatim>\<open>len(loader)\<close> and the batches one pass
  over it yields, per epoch.
\<close>

record 'b joined =
  jl_len :: nat
  jl_iter :: "nat \<Rightarrow> 'b list"

text \<open>
  Modelled from the spec: the class \<^verbatim>\<open>JoinedDataLoader\<close> of the module \<^verbatim>\<open>torch_utils\<close>,
  which is not among the source files. The spec's contract: each step advances both
  underlying loaders and yields one combined batch, the shorter loader bounds the pass,
  and the exposed length is the number of combined batches. How two batches combine is
  the parameter \<open>combine\<close>.
\<close>

definition JoinedDataLoader_spec ::
  "('b \<Rightarrow> 'b \<Rightarrow> 'b) \<Rightarrow> 'b dataloader \<Rightarrow> 'b dataloader \<Rightarrow> 'b joined" where
  "JoinedDataLoader_spec combine A B =
     \<lparr> jl_len = min (n_batches A) (n_batches B),
       jl_iter = (\<lambda>epoch. map2 combine (dl_iter A epoch) (dl_iter B epoch)) \<rparr>"

subsection \<open>The collaborators\<close>

text \<open>
  Everything the script calls and does not define. \<open>'f\<close> is the type of floats, \<open>'g\<close> of
  a random generator's state, \<open>'b\<close> of a batch, and \<open>'m\<close> of a module object: a network or
  a loss and, from line 108 on, the network together with its loss and its optimizer, which
  is what training changes.
  \<^item> \<open>fzero\<close> is \<^verbatim>\<open>0.0\<close>, \<open>fadd\<close> float addition, \<open>fdiv\<close> the division of a float by a
    non-zero int; \<open>float_2e_4\<close> and \<open>float_0_001\<close> are the two float defaults.
  \<^item> \<open>randint\<close>, \<open>random_seed\<close> and \<open>random_sample\<close> are Python's \<^verbatim>\<open>random\<close>;
    \<open>torch_manual_seed\<close> and \<open>torch_randperm\<close> the tensor library's generator.
  \<^item> \<open>count_samples\<close> is the dataset class's view of the disk.
  \<^item> \<open>DataLoader\<close> and \<open>JoinedDataLoader\<close> build the loaders.
  \<^item> \<open>new_model\<close> and \<open>new_criterion\<close> are the constructor calls on the right of the
    assignments of lines 87 to 104; \<open>module_bool\<close> is \<^verbatim>\<open>bool()\<close> of a module object, as
    \<^verbatim>\<open>assert\<close> takes it (the classes are not among the source files; an instance is true
    unless its class defines \<^verbatim>\<open>__bool__\<close> or \<^verbatim>\<open>__len__\<close>); \<open>to_device\<close> is
    \<^verbatim>\<open>.to(device)\<close> of lines 91 and 106; \<open>Adam model criterion rate\<close> is line 108, the
    network with its loss under a new optimizer over its parameters.
  \<^item> \<open>train_step\<close> is lines 116 to 124 for one batch: the new state and
    \<^verbatim>\<open>loss.item()\<close>; \<open>eval_loss\<close> is lines 137 to 141 for one batch.
\<close>

record ('f, 'm, 'b, 'g) lib =
  fzero :: 'f
  fadd :: "'f \<Rightarrow> 'f \<Rightarrow> 'f"
  fdiv :: "'f \<Rightarrow> int \<Rightarrow> 'f"
  float_2e_4 :: 'f
  float_0_001 :: 'f
  randint :: "'g \<Rightarrow> int \<Rightarrow> int \<Rightarrow> int \<times> 'g"
  random_seed :: "int \<Rightarrow> 'g"
  random_sample :: "'g \<Rightarrow> nat \<Rightarrow> nat \<Rightarrow> (nat \<Rightarrow> nat) \<times> 'g"
  torch_manual_seed :: "int \<Rightarrow> py_error + 'g"
  torch_randperm :: "'g \<Rightarrow> nat \<Rightarrow> (nat \<Rightarrow> nat) \<times> 'g"
  count_samples :: "string \<Rightarrow> string \<Rightarrow> py_error + nat"
  DataLoader :: "subset \<Rightarrow> int \<Rightarrow> py_error + 'b dataloader"
  JoinedDataLoader :: "'b dataloader \<Rightarrow> 'b dataloader \<Rightarrow> 'b joined"
  new_model :: "model_cls \<Rightarrow> 'g \<Rightarrow> py_error + ('m \<times> 'g)"
  new_criterion :: "'f criterion_cls \<Rightarrow> 'g \<Rightarrow> py_error + ('m \<times> 'g)"
  module_bool :: "'m \<Rightarrow> bool"
  to_device :: "'m \<Rightarrow> string \<Rightarrow> py_error + 'm"
  Adam :: "'m \<Rightarrow> 'm \<Rightarrow> 'f \<Rightarrow> 'm"
  train_step :: "'m \<Rightarrow> 'b \<Rightarrow> 'm \<times> 'f"
  eval_loss :: "'m \<Rightarrow> 'b \<Rightarrow> 'f"

text \<open>
  What differs between two runs of the same command on the same data: the clock, and the
  state Python's generator starts in.
\<close>

record 'g ambient =
  now :: string
  py_rng0 :: 'g

subsection \<open>What a run leaves behind, and its state\<close>

text \<open>
  The calls that write to the log directory or to disk, in order, and every forward pass
  through the network with the mode of the network (\<open>True\<close> for training mode) and
  whether gradient tracking was enabled. Printing to the terminal is left out.
\<close>

datatype 'f event =
    SummaryWriter string
  | AddText string nat
  | MakeDirs string
  | AddScalar string 'f nat
  | AddImage string nat
  | TorchSave string
  | Forward bool bool

record ('f, 'm) state =
  opt :: "'f options"
  model :: 'm
  training :: bool
  grad_enabled :: bool
  events :: "'f event list"

definition emit :: "'f event \<Rightarrow> ('f, 'm) state \<Rightarrow> ('f, 'm) state" where
  "emit e s = s\<lparr> events := events s @ [e] \<rparr>"

text \<open>The names bound by lines 65 to 111 that the loop reads.\<close>

record ('m, 'b) prepared =
  train_landscape_dataset :: subset
  test_landscape_dataset :: subset
  train_portrait_dataset :: subset
  test_portrait_dataset :: subset
  train_loader :: "'b joined"
  test_loader :: "'b joined"
  model0 :: 'm
  test_idxs :: "nat list"

datatype ('f, 'm) outcome =
    Finished "('f, 'm) state"
  | Crashed py_error "'f options" "'f event list"

fun out_opt :: "('f, 'm) outcome \<Rightarrow> 'f options" where
  "out_opt (Finished s) = opt s"
| "out_opt (Crashed e cfg evs) = cfg"

fun out_events :: "('f, 'm) outcome \<Rightarrow> 'f event list" where
  "out_events (Finished s) = events s"
| "out_events (Crashed e cfg evs) = evs"

subsection \<open>Start-up: lines 36 to 49\<close>

text \<open>
  The writer is opened under a name made of the run tag and the clock, the options are
  logged, a missing seed is drawn and stored in \<^verbatim>\<open>opt.manual_seed\<close>, both generators are
  seeded with it and the checkpoint directory is made. The result: the options, the state
  of Python's generator, the state of the tensor library's generator, the events so far.
\<close>

definition startup ::
  "('f, 'm, 'b, 'g) lib \<Rightarrow> 'g ambient \<Rightarrow> 'f options
     \<Rightarrow> (py_error \<times> 'f options \<times> 'f event list) + ('f options \<times> 'g \<times> 'g \<times> 'f event list)" where
  "startup L amb cfg =
     (let date = now amb;
          run_name = (if run_tag cfg \<noteq> [] then run_tag cfg @ ''_'' @ date else date);
          log_dir_name = path_join (logdir cfg) run_name;
          evs = [SummaryWriter log_dir_name, AddText ''Options'' 0];
          seeded =
            (case manual_seed cfg of
               None \<Rightarrow>
                 (let r = fst (randint L (py_rng0 amb) 1 10000)
                  in (cfg\<lparr> manual_seed := Some r \<rparr>, r))
             | Some s \<Rightarrow> (cfg, s));
          cfg1 = fst seeded;
          seed = snd seeded;
          g_py = random_seed L seed
      in case torch_manual_seed L seed of
           Inl e \<Rightarrow> Inl (e, cfg1, evs)
         | Inr g_t \<Rightarrow> Inr (cfg1, g_py, g_t, evs @ [MakeDirs (checkpoint_dir cfg1)]))"

subsection \<open>Building what the loop needs: lines 51 to 111\<close>

definition make_splits ::
  "('f, 'm, 'b, 'g) lib \<Rightarrow> 'f options \<Rightarrow> 'g
     \<Rightarrow> py_error + (((subset \<times> subset) \<times> (subset \<times> subset)) \<times> 'g)" where
  "make_splits L cfg g =
     (case FivekDataset (count_samples L) (data_path cfg) ''landscape'' of
        Inl e \<Rightarrow> Inl e
      | Inr landscape_dataset \<Rightarrow>
     (case FivekDataset (count_samples L) (data_path cfg) ''portrait'' of
        Inl e \<Rightarrow> Inl e
      | Inr portrait_dataset \<Rightarrow>
     (case split_dataset (torch_randperm L) g landscape_dataset of
        Inl e \<Rightarrow> Inl e
      | Inr (landscape, g1) \<Rightarrow>
     (case split_dataset (torch_randperm L) g1 portrait_dataset of
        Inl e \<Rightarrow> Inl e
      | Inr (portrait, g2) \<Rightarrow> Inr ((landscape, portrait), g2)))))"

text \<open>Lines 77 to 83: the four loaders and the two joined loaders.\<close>

definition make_loaders ::
  "('f, 'm, 'b, 'g) lib \<Rightarrow> 'f options \<Rightarrow> (subset \<times> subset) \<times> (subset \<times> subset)
     \<Rightarrow> py_error + ('b joined \<times> 'b joined)" where
  "make_loaders L cfg splits =
     (case DataLoader L (fst (fst splits)) (batch_size cfg) of
        Inl e \<Rightarrow> Inl e
      | Inr train_landscape_loader \<Rightarrow>
     (case DataLoader L (fst (snd splits)) (batch_size cfg) of
        Inl e \<Rightarrow> Inl e
      | Inr train_portrait_loader \<Rightarrow>
     (case DataLoader L (snd (fst splits)) (batch_size cfg) of
        Inl e \<Rightarrow> Inl e
      | Inr test_landscape_loader \<Rightarrow>
     (case DataLoader L (snd (snd splits)) (batch_size cfg) of
        Inl e \<Rightarrow> Inl e
      | Inr test_portrait_loader \<Rightarrow>
          Inr (JoinedDataLoader L train_landscape_loader train_portrait_loader,
               JoinedDataLoader L test_landscape_loader test_portrait_loader)))))"

text \<open>
  Lines 86 to 91: the selected network is built, the name \<^verbatim>\<open>model\<close> is asserted and the
  network is moved to the device.
\<close>

definition make_network ::
  "('f, 'm, 'b, 'g) lib \<Rightarrow> 'f options \<Rightarrow> 'g \<Rightarrow> py_error + ('m \<times> 'g)" where
  "make_network L cfg g =
     (case construct (new_model L) (select_model (model_type cfg)) g of
        Inl e \<Rightarrow> Inl e
      | Inr (network, g') \<Rightarrow>
     (case assert_name (module_bool L) ''model'' network of
        Inl e \<Rightarrow> Inl e
      | Inr m \<Rightarrow>
     (case to_device L m (device_of cfg) of
        Inl e \<Rightarrow> Inl e
      | Inr m' \<Rightarrow> Inr (m', g'))))"

text \<open>Lines 93 to 106: the same for the loss and the name \<^verbatim>\<open>criterion\<close>.\<close>

definition make_criterion ::
  "('f, 'm, 'b, 'g) lib \<Rightarrow> 'f options \<Rightarrow> 'g \<Rightarrow> py_error + ('m \<times> 'g)" where
  "make_criterion L cfg g =
     (case construct (new_criterion L)
             (select_criterion (device_of cfg) (gamma cfg) (loss cfg)) g of
        Inl e \<Rightarrow> Inl e
      | Inr (criterion, g') \<Rightarrow>
     (case assert_name (module_bool L) ''criterion'' criterion of
        Inl e \<Rightarrow> Inl e
      | Inr c \<Rightarrow>
     (case to_device L c (device_of cfg) of
        Inl e \<Rightarrow> Inl e
      | Inr c' \<Rightarrow> Inr (c', g'))))"

text \<open>Lines 86 to 108: the network, the loss and the optimizer.\<close>

definition make_model ::
  "('f, 'm, 'b, 'g) lib \<Rightarrow> 'f options \<Rightarrow> 'g \<Rightarrow> py_error + ('m \<times> 'g)" where
  "make_model L cfg g =
     (case make_network L cfg g of
        Inl e \<Rightarrow> Inl e
      | Inr (network, g') \<Rightarrow>
     (case make_criterion L cfg g' of
        Inl e \<Rightarrow> Inl e
      | Inr (criterion, g'') \<Rightarrow> Inr (Adam L network criterion (lr cfg), g'')))"

text \<open>Line 111: three indices into the landscape test split.\<close>

definition pick_test_idxs ::
  "('f, 'm, 'b, 'g) lib \<Rightarrow> 'g \<Rightarrow> subset \<Rightarrow> py_error + (nat list \<times> 'g)" where
  "pick_test_idxs L g test_landscape =
     sample_range (random_sample L) g (length (indices test_landscape)) 3"

definition prepare ::
  "('f, 'm, 'b, 'g) lib \<Rightarrow> 'f options \<Rightarrow> 'g \<Rightarrow> 'g \<Rightarrow> py_error + ('m, 'b) prepared" where
  "prepare L cfg g_py g_t =
     (case make_splits L cfg g_t of
        Inl e \<Rightarrow> Inl e
      | Inr (splits, g1) \<Rightarrow>
     (case make_loaders L cfg splits of
        Inl e \<Rightarrow> Inl e
      | Inr (train_l, test_l) \<Rightarrow>
     (case make_model L cfg g1 of
        Inl e \<Rightarrow> Inl e
      | Inr (m, g2) \<Rightarrow>
     (case pick_test_idxs L g_py (snd (fst splits)) of
        Inl e \<Rightarrow> Inl e
      | Inr (idxs, g3) \<Rightarrow>
          Inr \<lparr> train_landscape_dataset = fst (fst splits),
                test_landscape_dataset = snd (fst splits),
                train_portrait_dataset = fst (snd splits),
                test_portrait_dataset = snd (snd splits),
                train_loader = train_l,
                test_loader = test_l,
                model0 = m,
                test_idxs = idxs \<rparr>))))"

subsection \<open>The epoch loop: lines 112 to 152\<close>

text \<open>
  Lines 115 to 126: one forward pass per batch, in the mode and with the gradient
  tracking the state has, then the update; the loss of the batch is added to
  \<^verbatim>\<open>cumulative_loss\<close>.
\<close>

fun train_loop ::
  "('f, 'm, 'b, 'g) lib \<Rightarrow> ('f, 'm) state \<Rightarrow> 'f \<Rightarrow> 'b list \<Rightarrow> ('f, 'm) state \<times> 'f" where
  "train_loop L s cumulative_loss [] = (s, cumulative_loss)"
| "train_loop L s cumulative_loss (batch # rest) =
     (let s1 = emit (Forward (training s) (grad_enabled s)) s;
          step = train_step L (model s1) batch;
          s2 = s1\<lparr> model := fst step \<rparr>
      in train_loop L s2 (fadd L cumulative_loss (snd step)) rest)"

text \<open>
  Lines 136 to 141: \<^verbatim>\<open>with torch.no_grad()\<close> switches gradient tracking off for its
  body and restores the previous setting when the body is left.
\<close>

fun test_loop ::
  "('f, 'm, 'b, 'g) lib \<Rightarrow> ('f, 'm) state \<Rightarrow> 'f list \<Rightarrow> 'b list \<Rightarrow> ('f, 'm) state \<times> 'f list" where
  "test_loop L s test_loss [] = (s, test_loss)"
| "test_loop L s test_loss (batch # rest) =
     (let previous = grad_enabled s;
          s1 = s\<lparr> grad_enabled := False \<rparr>;
          s2 = emit (Forward (training s1) (grad_enabled s1)) s1;
          test_loss1 = test_loss @ [eval_loss L (model s2) batch];
          s3 = s2\<lparr> grad_enabled := previous \<rparr>
      in test_loop L s3 test_loss1 rest)"

text \<open>
  Lines 145 to 152: for each visualisation index the sample is read from the landscape
  test split (an index outside the split is an IndexError), passed through the network
  and the grid of the three images is logged under a tag that starts with the index.
\<close>

fun visualise ::
  "subset \<Rightarrow> nat \<Rightarrow> ('f, 'm) state \<Rightarrow> nat list \<Rightarrow> (py_error \<times> ('f, 'm) state) + ('f, 'm) state" where
  "visualise ds epoch s [] = Inr s"
| "visualise ds epoch s (idx # rest) =
     (if idx < length (indices ds) then
        (let s1 = emit (Forward (training s) (grad_enabled s)) s;
             s2 = emit (AddImage (str_of_nat idx @ '':Original|Estimated|Actual'') epoch) s1
         in visualise ds epoch s2 rest)
      else Inl (IndexError, s))"

definition checkpoint_path :: "'f options \<Rightarrow> int \<Rightarrow> string" where
  "checkpoint_path cfg n =
     path_join (checkpoint_dir cfg) (run_tag cfg @ ''_epoch'' @ str_of_int n @ ''.pt'')"

definition final_path :: "'f options \<Rightarrow> string" where
  "final_path cfg = path_join (final_dir cfg) (run_tag cfg @ ''_final.pt'')"

text \<open>
  The body of the loop for the 0-based \<open>epoch\<close>, in its four parts. Lines 113 to 128:
  the training pass and the scalar \<^verbatim>\<open>Train Error\<close>, the accumulated loss divided by
  \<^verbatim>\<open>len(train_loader)\<close>.
\<close>

definition train_epoch ::
  "('f, 'm, 'b, 'g) lib \<Rightarrow> ('m, 'b) prepared \<Rightarrow> ('f, 'm) state \<Rightarrow> nat
     \<Rightarrow> (py_error \<times> ('f, 'm) state) + ('f, 'm) state" where
  "train_epoch L p s epoch =
     (let s1 = s\<lparr> training := True \<rparr>;
          trained = train_loop L s1 (fzero L) (jl_iter (train_loader p) epoch);
          s2 = fst trained;
          cumulative_loss = snd trained
      in if jl_len (train_loader p) = 0 then Inl (ZeroDivisionError, s2)
         else Inr (emit (AddScalar ''Train Error''
                           (fdiv L cumulative_loss (int (jl_len (train_loader p)))) epoch) s2))"

text \<open>Lines 130 and 131: the periodic checkpoint.\<close>

definition checkpoint ::
  "('f, 'm) state \<Rightarrow> nat \<Rightarrow> (py_error \<times> ('f, 'm) state) + ('f, 'm) state" where
  "checkpoint s epoch =
     (case py_mod (int epoch + 1) (checkpoint_every (opt s)) of
        Inl e \<Rightarrow> Inl (e, s)
      | Inr r \<Rightarrow>
          Inr (if r = 0 then emit (TorchSave (checkpoint_path (opt s) (int epoch + 1))) s
               else s))"

text \<open>
  Lines 134 to 143: the test pass and the scalar \<^verbatim>\<open>Test Error\<close>. \<^verbatim>\<open>sum(test_loss)\<close>
  starts from the int \<^verbatim>\<open>0\<close>, which float addition takes as \<^verbatim>\<open>0.0\<close>; with no test
  batch the division is \<^verbatim>\<open>0 / 0\<close>.
\<close>

definition evaluate ::
  "('f, 'm, 'b, 'g) lib \<Rightarrow> ('m, 'b) prepared \<Rightarrow> ('f, 'm) state \<Rightarrow> nat
     \<Rightarrow> (py_error \<times> ('f, 'm) state) + ('f, 'm) state" where
  "evaluate L p s epoch =
     (let s1 = s\<lparr> training := False \<rparr>;
          tested = test_loop L s1 [] (jl_iter (test_loader p) epoch);
          s2 = fst tested;
          test_loss = snd tested
      in if test_loss = [] then Inl (ZeroDivisionError, s2)
         else
           (let avg_loss = fdiv L (foldl (fadd L) (fzero L) test_loss)
                             (int (length test_loss))
            in Inr (emit (AddScalar ''Test Error'' avg_loss epoch) s2)))"

definition run_epoch ::
  "('f, 'm, 'b, 'g) lib \<Rightarrow> ('m, 'b) prepared \<Rightarrow> ('f, 'm) state \<Rightarrow> nat
     \<Rightarrow> (py_error \<times> ('f, 'm) state) + ('f, 'm) state" where
  "run_epoch L p s epoch =
     (case train_epoch L p s epoch of
        Inl x \<Rightarrow> Inl x
      | Inr s1 \<Rightarrow>
     (case checkpoint s1 epoch of
        Inl x \<Rightarrow> Inl x
      | Inr s2 \<Rightarrow>
     (case evaluate L p s2 epoch of
        Inl x \<Rightarrow> Inl x
      | Inr s3 \<Rightarrow> visualise (test_landscape_dataset p) epoch s3 (test_idxs p))))"

fun run_epochs ::
  "('f, 'm, 'b, 'g) lib \<Rightarrow> ('m, 'b) prepared \<Rightarrow> ('f, 'm) state \<Rightarrow> nat list
     \<Rightarrow> (py_error \<times> ('f, 'm) state) + ('f, 'm) state" where
  "run_epochs L p s [] = Inr s"
| "run_epochs L p s (epoch # rest) =
     (case run_epoch L p s epoch of
        Inl x \<Rightarrow> Inl x
      | Inr s' \<Rightarrow> run_epochs L p s' rest)"

subsection \<open>The whole script\<close>

text \<open>
  A new network is in training mode and gradient tracking is enabled when the process
  starts. After \<^verbatim>\<open>range(opt.epochs)\<close> is exhausted the final file is saved (line 155).
\<close>

definition run ::
  "('f, 'm, 'b, 'g) lib \<Rightarrow> 'g ambient \<Rightarrow> 'f options \<Rightarrow> ('f, 'm) outcome" where
  "run L amb cfg =
     (case startup L amb cfg of
        Inl (e, cfg1, evs) \<Rightarrow> Crashed e cfg1 evs
      | Inr (cfg1, g_py, g_t, evs) \<Rightarrow>
     (case prepare L cfg1 g_py g_t of
        Inl e \<Rightarrow> Crashed e cfg1 evs
      | Inr p \<Rightarrow>
     (case run_epochs L p
             \<lparr> opt = cfg1, model = model0 p, training = True, grad_enabled = True,
               events = evs \<rparr>
             [0..<nat (epochs cfg1)] of
        Inl (e, s) \<Rightarrow> Crashed e (opt s) (events s)
      | Inr s \<Rightarrow> Finished (emit (TorchSave (final_path (opt s))) s))))"

definition main ::
  "('f, 'm, 'b, 'g) lib \<Rightarrow> 'g ambient \<Rightarrow> 'f argv \<Rightarrow> py_error + ('f, 'm) outcome" where
  "main L amb a =
     (case parse_args (float_2e_4 L) (float_0_001 L) a of
        Inl e \<Rightarrow> Inl e
      | Inr cfg \<Rightarrow> Inr (run L amb cfg))"

subsection \<open>Reading a run\<close>



text \<open>The options as start-up leaves them: a missing seed has been drawn and stored.\<close>

definition startup_options ::
  "('f, 'm, 'b, 'g) lib \<Rightarrow> 'g ambient \<Rightarrow> 'f options \<Rightarrow> 'f options" where
  "startup_options L amb cfg =
     (case manual_seed cfg of
        None \<Rightarrow> cfg\<lparr> manual_seed := Some (fst (randint L (py_rng0 amb) 1 10000)) \<rparr>
      | Some s \<Rightarrow> cfg)"

text \<open>The state an epoch stopped in, whether it completed or raised.\<close>

definition after_epoch :: "(py_error \<times> ('f, 'm) state) + ('f, 'm) state \<Rightarrow> ('f, 'm) state" where
  "after_epoch r = (case r of Inl (e, s) \<Rightarrow> s | Inr s \<Rightarrow> s)"

text \<open>
  Projections of the event list: the forward passes (mode, gradient tracking), the scalars
  (tag, value, step), the scalars of one tag, the image grids (tag, step) and the paths
  saved to.
\<close>

definition forward_log :: "'f event list \<Rightarrow> (bool \<times> bool) list" where
  "forward_log evs = concat (map (\<lambda>ev. case ev of Forward t g \<Rightarrow> [(t, g)] | _ \<Rightarrow> []) evs)"

definition scalar_log :: "'f event list \<Rightarrow> (string \<times> 'f \<times> nat) list" where
  "scalar_log evs =
     concat (map (\<lambda>ev. case ev of AddScalar tag v n \<Rightarrow> [(tag, v, n)] | _ \<Rightarrow> []) evs)"

definition scalars_tagged :: "string \<Rightarrow> 'f event list \<Rightarrow> ('f \<times> nat) list" where
  "scalars_tagged tag evs =
     concat (map (\<lambda>ev. case ev of
                          AddScalar t v n \<Rightarrow> if t = tag then [(v, n)] else []
                        | _ \<Rightarrow> []) evs)"

definition image_log :: "'f event list \<Rightarrow> (string \<times> nat) list" where
  "image_log evs = concat (map (\<lambda>ev. case ev of AddImage tag n \<Rightarrow> [(tag, n)] | _ \<Rightarrow> []) evs)"

definition saved_paths :: "'f event list \<Rightarrow> string list" where
  "saved_paths evs = concat (map (\<lambda>ev. case ev of TorchSave path \<Rightarrow> [path] | _ \<Rightarrow> []) evs)"

definition image_tag :: "nat \<Rightarrow> string" where
  "image_tag idx = str_of_nat idx @ '':Original|Estimated|Actual''"

text \<open>
  The values an epoch is expected to log, written without the loop: the losses of the
  batches in order, each computed in the state the batches before it left; the state after
  all of them; the two averages.
\<close>

fun epoch_losses :: "('f, 'm, 'b, 'g) lib \<Rightarrow> 'm \<Rightarrow> 'b list \<Rightarrow> 'f list" where
  "epoch_losses L m [] = []"
| "epoch_losses L m (batch # rest) =
     snd (train_step L m batch) # epoch_losses L (fst (train_step L m batch)) rest"

definition trained_model :: "('f, 'm, 'b, 'g) lib \<Rightarrow> 'm \<Rightarrow> 'b list \<Rightarrow> 'm" where
  "trained_model L m batches = foldl (\<lambda>m' batch. fst (train_step L m' batch)) m batches"

definition train_error ::
  "('f, 'm, 'b, 'g) lib \<Rightarrow> ('m, 'b) prepared \<Rightarrow> 'm \<Rightarrow> nat \<Rightarrow> 'f" where
  "train_error L p m epoch =
     fdiv L (foldl (fadd L) (fzero L) (epoch_losses L m (jl_iter (train_loader p) epoch)))
       (int (jl_len (train_loader p)))"

definition test_error ::
  "('f, 'm, 'b, 'g) lib \<Rightarrow> ('m, 'b) prepared \<Rightarrow> 'm \<Rightarrow> nat \<Rightarrow> 'f" where
  "test_error L p m epoch =
     fdiv L
       (foldl (fadd L) (fzero L) (map (eval_loss L m) (jl_iter (test_loader p) epoch)))
       (int (length (jl_iter (test_loader p) epoch)))"

text \<open>
  The events of a completed epoch that starts in state \<open>s\<close>, where \<open>r\<close> is the remainder
  of the 1-based epoch number by the checkpoint interval.
\<close>

definition epoch_events ::
  "('f, 'm, 'b, 'g) lib \<Rightarrow> ('m, 'b) prepared \<Rightarrow> ('f, 'm) state \<Rightarrow> nat \<Rightarrow> int \<Rightarrow> 'f event list" where
  "epoch_events L p s epoch r =
     replicate (length (jl_iter (train_loader p) epoch)) (Forward True (grad_enabled s)) @
     [AddScalar ''Train Error'' (train_error L p (model s) epoch) epoch] @
     (if r = 0 then [TorchSave (checkpoint_path (opt s) (int epoch + 1))] else []) @
     replicate (length (jl_iter (test_loader p) epoch)) (Forward False False) @
     [AddScalar ''Test Error''
        (test_error L p (trained_model L (model s) (jl_iter (train_loader p) epoch)) epoch)
        epoch] @
     concat (map (\<lambda>idx. [Forward False (grad_enabled s), AddImage (image_tag idx) epoch])
               (test_idxs p))"

subsection \<open>A small concrete run\<close>

text \<open>
  Collaborators that compute: floats are integers, a generator state is a counter, every
  permutation and every sample is the identity, each orientation has eleven samples, a
  loader cuts its subset into batches of the batch size, the joined loader is the one
  modelled from the spec, a training step counts the steps taken and reports ten times
  that count as its loss.
\<close>

definition demo_lib :: "(int, nat, nat, nat) lib" where
  "demo_lib =
     \<lparr> fzero = 0, fadd = (+), fdiv = (\<lambda>x n. x div n), float_2e_4 = 0, float_0_001 = 0,
       randint = (\<lambda>g a b. (a + 41, Suc g)),
       random_seed = (\<lambda>s. nat s),
       random_sample = (\<lambda>g n k. (\<lambda>i. i, Suc g)),
       torch_manual_seed = (\<lambda>s. Inr (nat s)),
       torch_randperm = (\<lambda>g n. (\<lambda>i. i, Suc g)),
       count_samples = (\<lambda>path ratio. Inr 11),
       DataLoader = (\<lambda>sub bs. if 0 < bs
          then Inr \<lparr> n_batches = nat ((int (length (indices sub)) + bs - 1) div bs),
                     batch_at = (\<lambda>e i. e + i) \<rparr>
          else Inl ValueError),
       JoinedDataLoader = JoinedDataLoader_spec (+),
       new_model = (\<lambda>mc g. Inr (0, g)),
       new_criterion = (\<lambda>cc g. Inr (0, g)),
       module_bool = (\<lambda>m. True),
       to_device = (\<lambda>m dev. Inr m),
       Adam = (\<lambda>m c r. m),
       train_step = (\<lambda>m b. (Suc m, 10 * int (Suc m))),
       eval_loss = (\<lambda>m b. int m) \<rparr>"

definition demo_ambient :: "nat ambient" where
  "demo_ambient = \<lparr> now = ''01-01-20_00:00'', py_rng0 = 0 \<rparr>"


definition no_args :: "int argv" where
  "no_args =
     \<lparr> arg_batch_size = None, arg_epochs = None, arg_lr = None, arg_cuda = False,
       arg_cuda_idx = None, arg_manual_seed = None, arg_logdir = None, arg_run_tag = None,
       arg_checkpoint_every = None, arg_checkpoint_dir = None, arg_final_dir = None,
       arg_model_type = None, arg_loss = None, arg_gamma = None, arg_data_path = None \<rparr>"

definition default_options :: "int options" where
  "default_options =
     \<lparr> batch_size = 8, epochs = 100, lr = 0, cuda = False, cuda_idx = 1,
       manual_seed = None, logdir = ''log'', run_tag = [],
       checkpoint_every = PyInt 10, checkpoint_dir = ''checkpoints'',
       final_dir = ''final_models'', model_type = ''can32'', loss = ''mse'', gamma = 0,
       data_path = ''/home/iacv3_1/fivek'' \<rparr>"

definition demo_options :: "int options" where
  "demo_options = default_options\<lparr> epochs := 1, manual_seed := Some 7, run_tag := ''t'' \<rparr>"

definition demo_loader :: "nat dataloader" where
  "demo_loader = \<lparr> n_batches = 1, batch_at = (\<lambda>e i. e + i) \<rparr>"

definition demo_dataset :: fivek_dataset where
  "demo_dataset = \<lparr> root = ''/home/iacv3_1/fivek'', filter_ratio = ''landscape'', ds_len = 11 \<rparr>"

definition demo_prepared :: "(nat, nat) prepared" where
  "demo_prepared =
     \<lparr> train_landscape_dataset = \<lparr> dataset = demo_dataset, indices = [0, 1, 2, 3, 4, 5, 6, 7] \<rparr>,
       test_landscape_dataset = \<lparr> dataset = demo_dataset, indices = [8, 9, 10] \<rparr>,
       train_portrait_dataset = \<lparr> dataset = demo_dataset, indices = [0, 1, 2, 3, 4, 5, 6, 7] \<rparr>,
       test_portrait_dataset = \<lparr> dataset = demo_dataset, indices = [8, 9, 10] \<rparr>,
       train_loader = JoinedDataLoader_spec (+) demo_loader demo_loader,
       test_loader = JoinedDataLoader_spec (+) demo_loader demo_loader,
       model0 = 0,
       test_idxs = [0, 1, 2] \<rparr>"

definition demo_state :: "(int, nat) state" where
  "demo_state =
     \<lparr> opt = demo_options, model = 0, training = True, grad_enabled = True, events = [] \<rparr>"

text \<open>
  Variants: ten samples per orientation instead of eleven, with the splits they give, and
  a set-up whose joined test loader is empty.
\<close>

definition small_lib :: "(int, nat, nat, nat) lib" where
  "small_lib = demo_lib\<lparr> count_samples := (\<lambda>path ratio. Inr 10) \<rparr>"

definition small_splits :: "(subset \<times> subset) \<times> (subset \<times> subset)" where
  "small_splits =
     ((\<lparr> dataset = \<lparr> root = ''/home/iacv3_1/fivek'', filter_ratio = ''landscape'', ds_len = 10 \<rparr>,
         indices = [0, 1, 2, 3, 4, 5, 6, 7] \<rparr>,
       \<lparr> dataset = \<lparr> root = ''/home/iacv3_1/fivek'', filter_ratio = ''landscape'', ds_len = 10 \<rparr>,
         indices = [8, 9] \<rparr>),
      (\<lparr> dataset = \<lparr> root = ''/home/iacv3_1/fivek'', filter_ratio = ''portrait'', ds_len = 10 \<rparr>,
         indices = [0, 1, 2, 3, 4, 5, 6, 7] \<rparr>,
       \<lparr> dataset = \<lparr> root = ''/home/iacv3_1/fivek'', filter_ratio = ''portrait'', ds_len = 10 \<rparr>,
         indices = [8, 9] \<rparr>))"

definition empty_test_prepared :: "(nat, nat) prepared" where
  "empty_test_prepared = demo_prepared\<lparr> test_loader := \<lparr> jl_len = 0, jl_iter = (\<lambda>e. []) \<rparr> \<rparr>"

text \<open>
  A set-up whose joined training loader is made of a loader of three batches and a loader
  of two; options with both selectors given on the command line; and collaborators whose
  module objects are false.
\<close>

definition long_loader :: "nat dataloader" where
  "long_loader = \<lparr> n_batches = 3, batch_at = (\<lambda>e i. e + i) \<rparr>"

definition short_loader :: "nat dataloader" where
  "short_loader = \<lparr> n_batches = 2, batch_at = (\<lambda>e i. e + i) \<rparr>"

definition uneven_prepared :: "(nat, nat) prepared" where
  "uneven_prepared =
     demo_prepared\<lparr> train_loader := JoinedDataLoader_spec (+) long_loader short_loader \<rparr>"




section \<open>Auxiliary facts\<close>






lemma train_size_of_div: "train_size_of n = (4 * int n) div 5"
  unfolding train_size_of_def by linarith

lemma train_size_of_bounds: "0 \<le> train_size_of n \<and> train_size_of n \<le> int n"
  unfolding train_size_of_div by linarith

lemma py_slice_prefix:
  "0 \<le> a \<Longrightarrow> a \<le> int (length xs) \<Longrightarrow> py_slice xs 0 a = take (nat a) xs"
  by (simp add: py_slice_def Let_def min_def)

lemma py_slice_suffix:
  "0 \<le> a \<Longrightarrow> a \<le> c \<Longrightarrow> c = int (length xs) \<Longrightarrow> py_slice xs a c = drop (nat a) xs"
  by (simp add: py_slice_def Let_def min_def)

lemma random_split_sizes:
  assumes "0 \<le> a" and "0 \<le> b" and "a + b = int (ds_len ds)"
  shows "\<exists>tr te g'. random_split rp g ds a b = Inr ((tr, te), g') \<and>
           dataset tr = ds \<and> dataset te = ds \<and>
           int (length (indices tr)) = a \<and> int (length (indices te)) = b"
proof -
  obtain perm g' where rp: "rp g (nat (a + b)) = (perm, g')" by (cases "rp g (nat (a + b))")
  let ?idxs = "map perm [0..<nat (a + b)]"
  have len: "int (length ?idxs) = a + b" using assms by simp
  have 1: "py_slice ?idxs (a - a) a = take (nat a) ?idxs"
    using assms len by (simp add: py_slice_prefix)
  have "a + b - b = a" by simp
  then have 2: "py_slice ?idxs (a + b - b) (a + b) = drop (nat a) ?idxs"
    using assms(1,2) len by (simp only: py_slice_suffix [of a "a + b" ?idxs])
  have "random_split rp g ds a b =
          Inr ((\<lparr> dataset = ds, indices = take (nat a) ?idxs \<rparr>,
                \<lparr> dataset = ds, indices = drop (nat a) ?idxs \<rparr>), g')"
    using assms(3) rp 1 2 by (simp add: random_split_def Let_def)
  moreover have "int (length (take (nat a) ?idxs)) = a" using assms by simp
  moreover have "int (length (drop (nat a) ?idxs)) = b" using assms by simp
  ultimately show ?thesis by simp
qed

lemma split_dataset_sizes:
  "\<exists>tr te g'. split_dataset rp g ds = Inr ((tr, te), g') \<and>
      dataset tr = ds \<and> dataset te = ds \<and>
      int (length (indices tr)) = train_size_of (ds_len ds) \<and>
      int (length (indices te)) = int (ds_len ds) - train_size_of (ds_len ds)"
  unfolding split_dataset_def Let_def
  using train_size_of_bounds [of "ds_len ds"]
  by (intro random_split_sizes) simp_all

lemma make_splits_sizes:
  assumes "count_samples L (data_path cfg) ''landscape'' = Inr nl"
    and "count_samples L (data_path cfg) ''portrait'' = Inr np"
  shows "\<exists>trl tel trp tep g'.
           make_splits L cfg g = Inr (((trl, tel), (trp, tep)), g') \<and>
           int (length (indices trl)) = train_size_of nl \<and>
           int (length (indices tel)) = int nl - train_size_of nl \<and>
           int (length (indices trp)) = train_size_of np \<and>
           int (length (indices tep)) = int np - train_size_of np"
proof -
  let ?dl = "\<lparr> root = data_path cfg, filter_ratio = ''landscape'', ds_len = nl \<rparr>"
  let ?dp = "\<lparr> root = data_path cfg, filter_ratio = ''portrait'', ds_len = np \<rparr>"
  from split_dataset_sizes [of "torch_randperm L" g ?dl]
  obtain trl tel g1 where l: "split_dataset (torch_randperm L) g ?dl = Inr ((trl, tel), g1)"
    and ls: "int (length (indices trl)) = train_size_of nl"
      "int (length (indices tel)) = int nl - train_size_of nl"
    by auto
  from split_dataset_sizes [of "torch_randperm L" g1 ?dp]
  obtain trp tep g2 where p: "split_dataset (torch_randperm L) g1 ?dp = Inr ((trp, tep), g2)"
    and ps: "int (length (indices trp)) = train_size_of np"
      "int (length (indices tep)) = int np - train_size_of np"
    by auto
  have "make_splits L cfg g = Inr (((trl, tel), (trp, tep)), g2)"
    using assms l p by (simp add: make_splits_def FivekDataset_def)
  with ls ps show ?thesis by blast
qed

lemma test_size_ge_3: "(3 \<le> int n - train_size_of n) = (11 \<le> n)"
  unfolding train_size_of_div by linarith

lemma sample_range_raises:
  "sample_range pick g n k = (if k \<le> n then Inr (map (fst (pick g n k)) [0..<k], snd (pick g n k)) else Inl ValueError)"
  by (simp add: sample_range_def case_prod_beta)


lemma forward_log_append [simp]: "forward_log (xs @ ys) = forward_log xs @ forward_log ys"
  by (simp add: forward_log_def)

lemma scalar_log_append [simp]: "scalar_log (xs @ ys) = scalar_log xs @ scalar_log ys"
  by (simp add: scalar_log_def)

lemma image_log_append [simp]: "image_log (xs @ ys) = image_log xs @ image_log ys"
  by (simp add: image_log_def)

lemma saved_paths_append [simp]: "saved_paths (xs @ ys) = saved_paths xs @ saved_paths ys"
  by (simp add: saved_paths_def)

lemma scalars_tagged_append [simp]:
  "scalars_tagged t (xs @ ys) = scalars_tagged t xs @ scalars_tagged t ys"
  by (simp add: scalars_tagged_def)

lemma forward_log_simps [simp]:
  "forward_log [] = []"
  "forward_log (Forward t g # evs) = (t, g) # forward_log evs"
  "forward_log (AddScalar tag v n # evs) = forward_log evs"
  "forward_log (AddImage tag n # evs) = forward_log evs"
  "forward_log (TorchSave path # evs) = forward_log evs"
  "forward_log (SummaryWriter path # evs) = forward_log evs"
  "forward_log (AddText tag n # evs) = forward_log evs"
  "forward_log (MakeDirs path # evs) = forward_log evs"
  by (simp_all add: forward_log_def)

lemma scalar_log_simps [simp]:
  "scalar_log [] = []"
  "scalar_log (Forward t g # evs) = scalar_log evs"
  "scalar_log (AddScalar tag v n # evs) = (tag, v, n) # scalar_log evs"
  "scalar_log (AddImage tag n # evs) = scalar_log evs"
  "scalar_log (TorchSave path # evs) = scalar_log evs"
  "scalar_log (SummaryWriter path # evs) = scalar_log evs"
  "scalar_log (AddText tag n # evs) = scalar_log evs"
  "scalar_log (MakeDirs path # evs) = scalar_log evs"
  by (simp_all add: scalar_log_def)

lemma image_log_simps [simp]:
  "image_log [] = []"
  "image_log (Forward t g # evs) = image_log evs"
  "image_log (AddScalar tag v n # evs) = image_log evs"
  "image_log (AddImage tag n # evs) = (tag, n) # image_log evs"
  "image_log (TorchSave path # evs) = image_log evs"
  "image_log (SummaryWriter path # evs) = image_log evs"
  "image_log (AddText tag n # evs) = image_log evs"
  "image_log (MakeDirs path # evs) = image_log evs"
  by (simp_all add: image_log_def)

lemma saved_paths_simps [simp]:
  "saved_paths [] = []"
  "saved_paths (Forward t g # evs) = saved_paths evs"
  "saved_paths (AddScalar tag v n # evs) = saved_paths evs"
  "saved_paths (AddImage tag n # evs) = saved_paths evs"
  "saved_paths (TorchSave path # evs) = path # saved_paths evs"
  "saved_paths (SummaryWriter path # evs) = saved_paths evs"
  "saved_paths (AddText tag n # evs) = saved_paths evs"
  "saved_paths (MakeDirs path # evs) = saved_paths evs"
  by (simp_all add: saved_paths_def)

lemma scalars_tagged_simps [simp]:
  "scalars_tagged t [] = []"
  "scalars_tagged t (Forward tr g # evs) = scalars_tagged t evs"
  "scalars_tagged t (AddScalar tag v n # evs) =
     (if tag = t then (v, n) # scalars_tagged t evs else scalars_tagged t evs)"
  "scalars_tagged t (AddImage tag n # evs) = scalars_tagged t evs"
  "scalars_tagged t (TorchSave path # evs) = scalars_tagged t evs"
  "scalars_tagged t (SummaryWriter path # evs) = scalars_tagged t evs"
  "scalars_tagged t (AddText tag n # evs) = scalars_tagged t evs"
  "scalars_tagged t (MakeDirs path # evs) = scalars_tagged t evs"
  by (simp_all add: scalars_tagged_def)

lemma log_replicate_Forward [simp]:
  "scalar_log (replicate n (Forward t g)) = []"
  "image_log (replicate n (Forward t g)) = []"
  "saved_paths (replicate n (Forward t g)) = []"
  "scalars_tagged tag (replicate n (Forward t g)) = []"
  "forward_log (replicate n (Forward t g)) = replicate n (t, g)"
  by (induction n) simp_all

lemma emit_simps [simp]:
  "opt (emit e s) = opt s"
  "model (emit e s) = model s"
  "training (emit e s) = training s"
  "grad_enabled (emit e s) = grad_enabled s"
  "events (emit e s) = events s @ [e]"
  by (simp_all add: emit_def)

lemma train_loop_frame:
  "opt (fst (train_loop L s c bs)) = opt s \<and>
   training (fst (train_loop L s c bs)) = training s \<and>
   grad_enabled (fst (train_loop L s c bs)) = grad_enabled s"
  by (induction bs arbitrary: s c) (simp_all add: Let_def)

lemma train_loop_events:
  "events (fst (train_loop L s c bs)) =
     events s @ replicate (length bs) (Forward (training s) (grad_enabled s))"
  by (induction bs arbitrary: s c) (simp_all add: Let_def replicate_append_same)

lemma train_loop_loss:
  "snd (train_loop L s c bs) = foldl (fadd L) c (epoch_losses L (model s) bs)"
  by (induction bs arbitrary: s c) (simp_all add: Let_def)

lemma test_loop_frame:
  "opt (fst (test_loop L s acc bs)) = opt s \<and>
   model (fst (test_loop L s acc bs)) = model s \<and>
   training (fst (test_loop L s acc bs)) = training s \<and>
   grad_enabled (fst (test_loop L s acc bs)) = grad_enabled s"
  by (induction bs arbitrary: s acc) (simp_all add: Let_def)

lemma test_loop_events:
  "events (fst (test_loop L s acc bs)) =
     events s @ replicate (length bs) (Forward (training s) False)"
  by (induction bs arbitrary: s acc) (simp_all add: Let_def replicate_append_same)

lemma test_loop_losses:
  "snd (test_loop L s acc bs) = acc @ map (eval_loss L (model s)) bs"
  by (induction bs arbitrary: s acc) (simp_all add: Let_def)

lemma visualise_Inr:
  "visualise ds epoch s idxs = Inr s' \<Longrightarrow>
     opt s' = opt s \<and> model s' = model s \<and> training s' = training s \<and>
     grad_enabled s' = grad_enabled s \<and>
     events s' = events s @
       concat (map (\<lambda>idx. [Forward (training s) (grad_enabled s),
                            AddImage (image_tag idx) epoch]) idxs)"
  by (induction idxs arbitrary: s) (auto simp add: Let_def image_tag_def split: if_splits)

lemma visualise_after:
  "opt (after_epoch (visualise ds epoch s idxs)) = opt s \<and>
   scalars_tagged t (events (after_epoch (visualise ds epoch s idxs))) =
     scalars_tagged t (events s)"
  by (induction idxs arbitrary: s) (simp_all add: Let_def after_epoch_def)

lemma train_loop_model:
  "model (fst (train_loop L s c bs)) = trained_model L (model s) bs"
  by (induction bs arbitrary: s c) (simp_all add: Let_def trained_model_def)

lemma train_epoch_cases:
  "train_epoch L p s epoch =
     (if jl_len (train_loader p) = 0
      then Inl (ZeroDivisionError,
                fst (train_loop L (s\<lparr> training := True \<rparr>) (fzero L) (jl_iter (train_loader p) epoch)))
      else Inr (emit (AddScalar ''Train Error'' (train_error L p (model s) epoch) epoch)
                  (fst (train_loop L (s\<lparr> training := True \<rparr>) (fzero L)
                          (jl_iter (train_loader p) epoch)))))"
  by (simp add: train_epoch_def Let_def train_loop_loss train_error_def)

lemma train_epoch_Inr:
  assumes "train_epoch L p s epoch = Inr s'"
  shows "jl_len (train_loader p) \<noteq> 0 \<and> opt s' = opt s \<and> training s' = True \<and>
         grad_enabled s' = grad_enabled s \<and>
         model s' = trained_model L (model s) (jl_iter (train_loader p) epoch) \<and>
         events s' = events s @
           replicate (length (jl_iter (train_loader p) epoch)) (Forward True (grad_enabled s)) @
           [AddScalar ''Train Error'' (train_error L p (model s) epoch) epoch]"
proof -
  let ?t = "train_loop L (s\<lparr> training := True \<rparr>) (fzero L) (jl_iter (train_loader p) epoch)"
  have len: "jl_len (train_loader p) \<noteq> 0"
  proof
    assume "jl_len (train_loader p) = 0"
    with assms show False by (simp add: train_epoch_cases)
  qed
  with assms have s': "s' = emit (AddScalar ''Train Error'' (train_error L p (model s) epoch) epoch) (fst ?t)"
    by (simp add: train_epoch_cases)
  show ?thesis
    unfolding s' using len
    by (simp add: train_loop_frame train_loop_events train_loop_model)
qed

lemma checkpoint_cases:
  "checkpoint s epoch =
     (case py_mod (int epoch + 1) (checkpoint_every (opt s)) of
        Inl e \<Rightarrow> Inl (e, s)
      | Inr r \<Rightarrow>
          Inr (s\<lparr> events := events s @
                 (if r = 0 then [TorchSave (checkpoint_path (opt s) (int epoch + 1))]
                  else []) \<rparr>))"
  by (simp add: checkpoint_def emit_def split: sum.splits)

lemma checkpoint_Inr:
  assumes "checkpoint s epoch = Inr s'"
  shows "\<exists>r. py_mod (int epoch + 1) (checkpoint_every (opt s)) = Inr r \<and>
           opt s' = opt s \<and> training s' = training s \<and> grad_enabled s' = grad_enabled s \<and>
           model s' = model s \<and>
           events s' = events s @
             (if r = 0 then [TorchSave (checkpoint_path (opt s) (int epoch + 1))] else [])"
proof (cases "py_mod (int epoch + 1) (checkpoint_every (opt s))")
  case (Inl e)
  with assms show ?thesis by (simp add: checkpoint_cases)
next
  case (Inr r)
  with assms have "s' = s\<lparr> events := events s @
      (if r = 0 then [TorchSave (checkpoint_path (opt s) (int epoch + 1))] else []) \<rparr>"
    by (simp add: checkpoint_cases)
  then show ?thesis using Inr by simp
qed

lemma evaluate_cases:
  "evaluate L p s epoch =
     (if jl_iter (test_loader p) epoch = []
      then Inl (ZeroDivisionError,
                fst (test_loop L (s\<lparr> training := False \<rparr>) [] (jl_iter (test_loader p) epoch)))
      else Inr (emit (AddScalar ''Test Error'' (test_error L p (model s) epoch) epoch)
                  (fst (test_loop L (s\<lparr> training := False \<rparr>) []
                          (jl_iter (test_loader p) epoch)))))"
  by (simp add: evaluate_def Let_def test_loop_losses test_error_def)

lemma evaluate_Inr:
  assumes "evaluate L p s epoch = Inr s'"
  shows "jl_iter (test_loader p) epoch \<noteq> [] \<and> opt s' = opt s \<and> training s' = False \<and>
         grad_enabled s' = grad_enabled s \<and> model s' = model s \<and>
         events s' = events s @
           replicate (length (jl_iter (test_loader p) epoch)) (Forward False False) @
           [AddScalar ''Test Error'' (test_error L p (model s) epoch) epoch]"
proof -
  let ?t = "test_loop L (s\<lparr> training := False \<rparr>) [] (jl_iter (test_loader p) epoch)"
  have ne: "jl_iter (test_loader p) epoch \<noteq> []"
  proof
    assume "jl_iter (test_loader p) epoch = []"
    with assms show False by (simp add: evaluate_cases)
  qed
  with assms have s': "s' = emit (AddScalar ''Test Error'' (test_error L p (model s) epoch) epoch) (fst ?t)"
    by (simp add: evaluate_cases)
  show ?thesis
    unfolding s' using ne
    by (simp add: test_loop_frame test_loop_events)
qed

lemma run_epoch_phases:
  assumes "run_epoch L p s epoch = Inr s'"
  shows "\<exists>s1 s2 s3. train_epoch L p s epoch = Inr s1 \<and> checkpoint s1 epoch = Inr s2 \<and>
           evaluate L p s2 epoch = Inr s3 \<and>
           visualise (test_landscape_dataset p) epoch s3 (test_idxs p) = Inr s'"
proof (cases "train_epoch L p s epoch")
  case (Inl x)
  with assms show ?thesis by (simp add: run_epoch_def)
next
  case 1: (Inr s1)
  show ?thesis
  proof (cases "checkpoint s1 epoch")
    case (Inl x)
    with assms 1 show ?thesis by (simp add: run_epoch_def)
  next
    case 2: (Inr s2)
    show ?thesis
    proof (cases "evaluate L p s2 epoch")
      case (Inl x)
      with assms 1 2 show ?thesis by (simp add: run_epoch_def)
    next
      case 3: (Inr s3)
      with assms 1 2 show ?thesis by (simp add: run_epoch_def)
    qed
  qed
qed

lemma run_epoch_Inr:
  assumes "run_epoch L p s epoch = Inr s'"
  shows "\<exists>r. py_mod (int epoch + 1) (checkpoint_every (opt s)) = Inr r \<and>
           events s' = events s @ epoch_events L p s epoch r \<and>
           opt s' = opt s \<and> grad_enabled s' = grad_enabled s \<and>
           model s' = trained_model L (model s) (jl_iter (train_loader p) epoch) \<and>
           jl_len (train_loader p) \<noteq> 0 \<and> jl_iter (test_loader p) epoch \<noteq> []"
proof -
  let ?tb = "jl_iter (train_loader p) epoch"
  let ?eb = "jl_iter (test_loader p) epoch"
  from run_epoch_phases [OF assms] obtain s1 s2 s3 where
    1: "train_epoch L p s epoch = Inr s1" and 2: "checkpoint s1 epoch = Inr s2"
    and 3: "evaluate L p s2 epoch = Inr s3"
    and 4: "visualise (test_landscape_dataset p) epoch s3 (test_idxs p) = Inr s'"
    by blast
  from train_epoch_Inr [OF 1] have
    len: "jl_len (train_loader p) \<noteq> 0" and o1: "opt s1 = opt s"
    and g1: "grad_enabled s1 = grad_enabled s"
    and m1: "model s1 = trained_model L (model s) ?tb"
    and e1: "events s1 = events s @ replicate (length ?tb) (Forward True (grad_enabled s)) @
           [AddScalar ''Train Error'' (train_error L p (model s) epoch) epoch]"
    by simp_all
  from checkpoint_Inr [OF 2] obtain r where
    r: "py_mod (int epoch + 1) (checkpoint_every (opt s1)) = Inr r"
    and o2: "opt s2 = opt s1" and g2: "grad_enabled s2 = grad_enabled s1"
    and m2: "model s2 = model s1"
    and e2: "events s2 = events s1 @
         (if r = 0 then [TorchSave (checkpoint_path (opt s1) (int epoch + 1))] else [])"
    by blast
  from evaluate_Inr [OF 3] have
    ne: "?eb \<noteq> []" and o3: "opt s3 = opt s2" and t3: "training s3 = False"
    and g3: "grad_enabled s3 = grad_enabled s2" and m3: "model s3 = model s2"
    and e3: "events s3 = events s2 @ replicate (length ?eb) (Forward False False) @
           [AddScalar ''Test Error'' (test_error L p (model s2) epoch) epoch]"
    by simp_all
  from visualise_Inr [OF 4] have
    o4: "opt s' = opt s3" and g4: "grad_enabled s' = grad_enabled s3"
    and m4: "model s' = model s3"
    and e4: "events s' = events s3 @
       concat (map (\<lambda>idx. [Forward (training s3) (grad_enabled s3),
                            AddImage (image_tag idx) epoch]) (test_idxs p))"
    by simp_all
  have "events s' = events s @ epoch_events L p s epoch r"
    by (simp only: e4 e3 e2 e1 epoch_events_def t3 g3 g2 g1 m2 m1 o1 append_assoc)
  moreover have "py_mod (int epoch + 1) (checkpoint_every (opt s)) = Inr r"
    using r o1 by simp
  moreover have "opt s' = opt s" by (simp only: o4 o3 o2 o1)
  moreover have "grad_enabled s' = grad_enabled s" by (simp only: g4 g3 g2 g1)
  moreover have "model s' = trained_model L (model s) ?tb" by (simp only: m4 m3 m2 m1)
  ultimately show ?thesis using len ne by (intro exI [of _ r] conjI)
qed

lemma after_epoch_simps [simp]:
  "after_epoch (Inl (e, s)) = s"
  "after_epoch (Inr s) = s"
  by (simp_all add: after_epoch_def)

lemma train_epoch_after:
  "opt (after_epoch (train_epoch L p s epoch)) = opt s \<and>
   scalars_tagged ''Train Error'' (events (after_epoch (train_epoch L p s epoch))) =
     scalars_tagged ''Train Error'' (events s) @
     (if jl_len (train_loader p) = 0 then []
      else [(train_error L p (model s) epoch, epoch)])"
  by (simp add: train_epoch_cases train_loop_frame train_loop_events)

lemma checkpoint_after:
  "opt (after_epoch (checkpoint s epoch)) = opt s \<and>
   scalars_tagged t (events (after_epoch (checkpoint s epoch))) = scalars_tagged t (events s)"
  by (simp add: checkpoint_cases split: sum.splits)

lemma evaluate_after:
  "opt (after_epoch (evaluate L p s epoch)) = opt s \<and>
   scalars_tagged ''Train Error'' (events (after_epoch (evaluate L p s epoch))) =
     scalars_tagged ''Train Error'' (events s)"
  by (simp add: evaluate_cases test_loop_frame test_loop_events)

lemma run_epoch_after:
  "opt (after_epoch (run_epoch L p s epoch)) = opt s \<and>
   scalars_tagged ''Train Error'' (events (after_epoch (run_epoch L p s epoch))) =
     scalars_tagged ''Train Error'' (events s) @
     (if jl_len (train_loader p) = 0 then []
      else [(train_error L p (model s) epoch, epoch)])"
proof (cases "train_epoch L p s epoch")
  case (Inl x)
  then have "run_epoch L p s epoch = train_epoch L p s epoch" by (simp add: run_epoch_def)
  then show ?thesis by (simp only: train_epoch_after)
next
  case 1: (Inr s1)
  from train_epoch_after [of L p s epoch] 1
  have a: "opt s1 = opt s"
    "scalars_tagged ''Train Error'' (events s1) =
       scalars_tagged ''Train Error'' (events s) @
       (if jl_len (train_loader p) = 0 then []
        else [(train_error L p (model s) epoch, epoch)])"
    by simp_all
  show ?thesis
  proof (cases "checkpoint s1 epoch")
    case (Inl x)
    with 1 have "run_epoch L p s epoch = checkpoint s1 epoch" by (simp add: run_epoch_def)
    then show ?thesis by (simp only: checkpoint_after a)
  next
    case 2: (Inr s2)
    from checkpoint_after [of s1 epoch "''Train Error''"] 2
    have b: "opt s2 = opt s1"
      "scalars_tagged ''Train Error'' (events s2) = scalars_tagged ''Train Error'' (events s1)"
      by simp_all
    show ?thesis
    proof (cases "evaluate L p s2 epoch")
      case (Inl x)
      with 1 2 have "run_epoch L p s epoch = evaluate L p s2 epoch"
        by (simp add: run_epoch_def)
      then show ?thesis by (simp only: evaluate_after a b)
    next
      case 3: (Inr s3)
      from evaluate_after [of L p s2 epoch] 3
      have c: "opt s3 = opt s2"
        "scalars_tagged ''Train Error'' (events s3) = scalars_tagged ''Train Error'' (events s2)"
        by simp_all
      from 1 2 3 have "run_epoch L p s epoch =
          visualise (test_landscape_dataset p) epoch s3 (test_idxs p)"
        by (simp add: run_epoch_def)
      then show ?thesis by (simp only: visualise_after a b c)
    qed
  qed
qed

lemma run_epochs_opt: "opt (after_epoch (run_epochs L p s es)) = opt s"
proof (induction es arbitrary: s)
  case Nil
  show ?case by simp
next
  case (Cons e es)
  show ?case
  proof (cases "run_epoch L p s e")
    case (Inl x)
    then have "run_epochs L p s (e # es) = run_epoch L p s e" by simp
    then show ?thesis by (simp only: run_epoch_after)
  next
    case (Inr s1)
    then have "run_epochs L p s (e # es) = run_epochs L p s1 es" by simp
    moreover from run_epoch_after [of L p s e] Inr have "opt s1 = opt s" by simp
    ultimately show ?thesis by (simp only: Cons.IH)
  qed
qed

lemma startup_Inl: "startup L amb cfg = Inl (e, cfg1, evs) \<Longrightarrow>
    cfg1 = startup_options L amb cfg \<and> forward_log evs = [] \<and> scalar_log evs = []"
  by (auto simp add: startup_def startup_options_def Let_def split: option.splits sum.splits)

lemma startup_Inr: "startup L amb cfg = Inr (cfg1, g_py, g_t, evs) \<Longrightarrow>
    cfg1 = startup_options L amb cfg \<and> forward_log evs = [] \<and> scalar_log evs = [] \<and>
    saved_paths evs = []"
  by (auto simp add: startup_def startup_options_def Let_def split: option.splits sum.splits)

lemma out_opt_run: "out_opt (run L amb cfg) = startup_options L amb cfg"
proof (cases "startup L amb cfg")
  case (Inl x)
  obtain e cfg1 evs where x: "x = (e, cfg1, evs)" by (cases x)
  with Inl startup_Inl [of L amb cfg e cfg1 evs] show ?thesis by (simp add: run_def)
next
  case (Inr y)
  obtain cfg1 g_py g_t evs where y: "y = (cfg1, g_py, g_t, evs)" by (cases y)
  from Inr y startup_Inr [of L amb cfg cfg1 g_py g_t evs]
  have c: "cfg1 = startup_options L amb cfg" by simp
  show ?thesis
  proof (cases "prepare L cfg1 g_py g_t")
    case (Inl e)
    with Inr y c show ?thesis by (simp add: run_def)
  next
    case p: (Inr p)
    let ?s0 = "\<lparr> opt = cfg1, model = model0 p, training = True, grad_enabled = True,
               events = evs \<rparr>"
    let ?r = "run_epochs L p ?s0 [0..<nat (epochs cfg1)]"
    have o: "opt (after_epoch ?r) = cfg1" by (simp only: run_epochs_opt) simp
    show ?thesis
    proof (cases ?r)
      case (Inl z)
      obtain e s where z: "z = (e, s)" by (cases z)
      with Inl o have "opt s = cfg1" by simp
      with Inr y p Inl z c show ?thesis by (simp add: run_def)
    next
      case r: (Inr s)
      with o have "opt s = cfg1" by simp
      with Inr y p r c show ?thesis by (simp add: run_def)
    qed
  qed
qed

lemma run_epoch_Inl_train:
  "train_epoch L p s epoch = Inl x \<Longrightarrow> run_epoch L p s epoch = Inl x"
  by (simp add: run_epoch_def)

lemma run_epoch_Inl_checkpoint:
  "train_epoch L p s epoch = Inr s1 \<Longrightarrow> checkpoint s1 epoch = Inl x \<Longrightarrow>
   run_epoch L p s epoch = Inl x"
  by (simp add: run_epoch_def)

lemma run_epoch_Inl_evaluate:
  "train_epoch L p s epoch = Inr s1 \<Longrightarrow> checkpoint s1 epoch = Inr s2 \<Longrightarrow>
   evaluate L p s2 epoch = Inl x \<Longrightarrow> run_epoch L p s epoch = Inl x"
  by (simp add: run_epoch_def)

lemma evaluate_empty:
  "jl_iter (test_loader p) epoch = [] \<Longrightarrow>
   evaluate L p s epoch = Inl (ZeroDivisionError, s\<lparr> training := False \<rparr>)"
  by (simp add: evaluate_cases)

lemma run_epoch_empty_test:
  assumes "jl_iter (test_loader p) epoch = []"
  shows "\<exists>e s'. run_epoch L p s epoch = Inl (e, s')"
proof (cases "train_epoch L p s epoch")
  case (Inl x)
  from run_epoch_Inl_train [OF Inl] show ?thesis by (cases x) simp
next
  case 1: (Inr s1)
  show ?thesis
  proof (cases "checkpoint s1 epoch")
    case (Inl x)
    from run_epoch_Inl_checkpoint [OF 1 Inl] show ?thesis by (cases x) simp
  next
    case 2: (Inr s2)
    from run_epoch_Inl_evaluate [OF 1 2 evaluate_empty [OF assms]]
    show ?thesis by blast
  qed
qed

lemma run_epoch_empty_test_zero_division:
  assumes "jl_iter (test_loader p) epoch = []"
    and "jl_len (train_loader p) \<noteq> 0"
    and "py_mod (int epoch + 1) (checkpoint_every (opt s)) = Inr r"
  shows "\<exists>s'. run_epoch L p s epoch = Inl (ZeroDivisionError, s')"
proof -
  from assms(2) obtain s1 where 1: "train_epoch L p s epoch = Inr s1"
    by (simp add: train_epoch_cases)
  from train_epoch_Inr [OF 1] have "opt s1 = opt s" by simp
  with assms(3) obtain s2 where 2: "checkpoint s1 epoch = Inr s2"
    by (simp add: checkpoint_cases)
  from run_epoch_Inl_evaluate [OF 1 2 evaluate_empty [OF assms(1)]]
  show ?thesis by blast
qed

lemma scalars_tagged_images [simp]:
  "scalars_tagged t (concat (map (\<lambda>idx. [Forward a b, AddImage (f idx) n]) idxs)) = []"
  by (induction idxs) simp_all

lemma scalar_log_images [simp]:
  "scalar_log (concat (map (\<lambda>idx. [Forward a b, AddImage (f idx) n]) idxs)) = []"
  by (induction idxs) simp_all

lemma saved_paths_images [simp]:
  "saved_paths (concat (map (\<lambda>idx. [Forward a b, AddImage (f idx) n]) idxs)) = []"
  by (induction idxs) simp_all

lemma image_log_images [simp]:
  "image_log (concat (map (\<lambda>idx. [Forward a b, AddImage (f idx) n]) idxs)) =
     map (\<lambda>idx. (f idx, n)) idxs"
  by (induction idxs) simp_all

lemma forward_log_images [simp]:
  "forward_log (concat (map (\<lambda>idx. [Forward a b, AddImage (f idx) n]) idxs)) =
     replicate (length idxs) (a, b)"
  by (induction idxs) simp_all

lemma epoch_events_scalars:
  "scalar_log (epoch_events L p s epoch r) =
     [(''Train Error'', train_error L p (model s) epoch, epoch),
      (''Test Error'',
       test_error L p (trained_model L (model s) (jl_iter (train_loader p) epoch)) epoch,
       epoch)]"
  by (simp add: epoch_events_def)

lemma epoch_events_test_error:
  "scalars_tagged ''Test Error'' (epoch_events L p s epoch r) =
     [(test_error L p (trained_model L (model s) (jl_iter (train_loader p) epoch)) epoch,
       epoch)]"
  by (simp add: epoch_events_def)

lemma epoch_events_images:
  "image_log (epoch_events L p s epoch r) = map (\<lambda>idx. (image_tag idx, epoch)) (test_idxs p)"
  by (simp add: epoch_events_def)

lemma epoch_events_saved:
  "saved_paths (epoch_events L p s epoch r) =
     (if r = 0 then [checkpoint_path (opt s) (int epoch + 1)] else [])"
  by (simp add: epoch_events_def)

lemma epoch_events_forward:
  "forward_log (epoch_events L p s epoch r) =
     replicate (length (jl_iter (train_loader p) epoch)) (True, grad_enabled s) @
     replicate (length (jl_iter (test_loader p) epoch)) (False, False) @
     replicate (length (test_idxs p)) (False, grad_enabled s)"
  by (simp add: epoch_events_def)

lemma JoinedDataLoader_spec_len:
  "jl_len (JoinedDataLoader_spec c A B) = length (jl_iter (JoinedDataLoader_spec c A B) epoch)"
  by (simp add: JoinedDataLoader_spec_def dl_iter_def)

lemma run_epochs_Inr:
  "run_epochs L p s es = Inr s' \<Longrightarrow> checkpoint_every (opt s) = PyInt k \<Longrightarrow>
   opt s' = opt s \<and>
   saved_paths (events s') =
     saved_paths (events s) @
     map (\<lambda>e. checkpoint_path (opt s) (int e + 1)) (filter (\<lambda>e. (int e + 1) mod k = 0) es)"
proof (induction es arbitrary: s)
  case Nil
  then show ?case by simp
next
  case (Cons e es)
  from Cons.prems(1) obtain s1 where 1: "run_epoch L p s e = Inr s1"
    and 2: "run_epochs L p s1 es = Inr s'"
    by (cases "run_epoch L p s e") simp_all
  from run_epoch_Inr [OF 1] obtain r where
    r: "py_mod (int e + 1) (checkpoint_every (opt s)) = Inr r"
    and ev: "events s1 = events s @ epoch_events L p s e r" and o: "opt s1 = opt s"
    by blast
  from r Cons.prems(2) have rk: "r = (int e + 1) mod k"
    by (simp add: py_mod_def split: if_splits)
  from Cons.IH [OF 2] Cons.prems(2) o
  have ih: "opt s' = opt s"
    "saved_paths (events s') = saved_paths (events s1) @
       map (\<lambda>e. checkpoint_path (opt s) (int e + 1)) (filter (\<lambda>e. (int e + 1) mod k = 0) es)"
    by simp_all
  show ?case
    by (simp add: ih ev epoch_events_saved rk)
qed

lemma checkpoints_of_finished_run:
  assumes "run L amb cfg = Finished s" and "checkpoint_every cfg = PyInt k"
  shows "saved_paths (events s) =
     map (\<lambda>e. checkpoint_path (opt s) (int e + 1))
       (filter (\<lambda>e. (int e + 1) mod k = 0) [0..<nat (epochs cfg)]) @
     [final_path (opt s)]"
proof (cases "startup L amb cfg")
  case (Inl x)
  with assms(1) show ?thesis by (cases x) (simp add: run_def split: prod.splits)
next
  case (Inr y)
  obtain cfg1 g_py g_t evs where y: "y = (cfg1, g_py, g_t, evs)" by (cases y)
  from Inr y startup_Inr [of L amb cfg cfg1 g_py g_t evs]
  have c: "cfg1 = startup_options L amb cfg" and sv: "saved_paths evs = []" by simp_all
  from c assms(2) have k: "checkpoint_every cfg1 = PyInt k" and ep: "epochs cfg1 = epochs cfg"
    by (simp_all add: startup_options_def split: option.splits)
  show ?thesis
  proof (cases "prepare L cfg1 g_py g_t")
    case (Inl e)
    with Inr y assms(1) show ?thesis by (simp add: run_def)
  next
    case p: (Inr p)
    let ?s0 = "\<lparr> opt = cfg1, model = model0 p, training = True, grad_enabled = True,
               events = evs \<rparr>"
    show ?thesis
    proof (cases "run_epochs L p ?s0 [0..<nat (epochs cfg1)]")
      case (Inl z)
      with Inr y p assms(1) show ?thesis by (cases z) (simp add: run_def)
    next
      case r: (Inr s1)
      with Inr y p assms(1) have s: "s = emit (TorchSave (final_path (opt s1))) s1"
        by (simp add: run_def)
      from run_epochs_Inr [OF r] k have "opt s1 = cfg1"
        and "saved_paths (events s1) = saved_paths evs @
          map (\<lambda>e. checkpoint_path cfg1 (int e + 1))
            (filter (\<lambda>e. (int e + 1) mod k = 0) [0..<nat (epochs cfg1)])"
        by simp_all
      then show ?thesis by (simp add: s sv ep)
    qed
  qed
qed

lemma make_splits_test_landscape:
  assumes "make_splits L cfg g = Inr (splits, g1)"
    and "count_samples L (data_path cfg) ''landscape'' = Inr n"
  shows "int (length (indices (snd (fst splits)))) = int n - train_size_of n"
proof -
  let ?dl = "\<lparr> root = data_path cfg, filter_ratio = ''landscape'', ds_len = n \<rparr>"
  from split_dataset_sizes [of "torch_randperm L" g ?dl]
  obtain trl tel g' where l: "split_dataset (torch_randperm L) g ?dl = Inr ((trl, tel), g')"
    and ls: "int (length (indices tel)) = int n - train_size_of n"
    by auto
  from assms l have "fst splits = (trl, tel)"
    by (auto simp add: make_splits_def FivekDataset_def split: sum.splits)
  with ls show ?thesis by simp
qed

lemma pick_test_idxs_cases:
  "pick_test_idxs L g te =
     (if 3 \<le> length (indices te)
      then Inr (map (fst (random_sample L g (length (indices te)) 3)) [0..<3],
                snd (random_sample L g (length (indices te)) 3))
      else Inl ValueError)"
  by (simp add: pick_test_idxs_def sample_range_raises)

lemma prepare_small:
  assumes "count_samples L (data_path cfg) ''landscape'' = Inr n" and "n < 11"
  shows "\<exists>e. prepare L cfg g_py g_t = Inl e"
    and "make_splits L cfg g_t = Inr (splits, g1) \<Longrightarrow> make_loaders L cfg splits = Inr ld \<Longrightarrow>
         make_model L cfg g1 = Inr mg \<Longrightarrow> prepare L cfg g_py g_t = Inl ValueError"
proof -
  have small: "pick_test_idxs L g_py (snd (fst sp)) = Inl ValueError"
    if "make_splits L cfg g_t = Inr (sp, g')" for sp g'
  proof -
    from make_splits_test_landscape [OF that assms(1)] test_size_ge_3 [of n] assms(2)
    have "length (indices (snd (fst sp))) < 3" by linarith
    then show ?thesis by (simp add: pick_test_idxs_cases)
  qed
  show "\<exists>e. prepare L cfg g_py g_t = Inl e"
  proof (cases "make_splits L cfg g_t")
    case (Inl e)
    then show ?thesis by (simp add: prepare_def)
  next
    case (Inr x)
    obtain sp g' where x: "x = (sp, g')" by (cases x)
    from small [of sp g'] Inr x
    have "pick_test_idxs L g_py (snd (fst sp)) = Inl ValueError" by simp
    with Inr x show ?thesis
      by (simp add: prepare_def split: sum.splits prod.splits)
  qed
  assume m: "make_splits L cfg g_t = Inr (splits, g1)"
    and l: "make_loaders L cfg splits = Inr ld" and mm: "make_model L cfg g1 = Inr mg"
  from small [OF m] m l mm show "prepare L cfg g_py g_t = Inl ValueError"
    by (simp add: prepare_def split: prod.splits)
qed

lemma startup_options_data_path [simp]:
  "data_path (startup_options L amb cfg) = data_path cfg"
  by (simp add: startup_options_def split: option.splits)

lemma run_small:
  assumes "count_samples L (data_path cfg) ''landscape'' = Inr n" and "n < 11"
  shows "\<exists>e cfg1 evs. run L amb cfg = Crashed e cfg1 evs \<and>
           forward_log evs = [] \<and> scalar_log evs = []"
proof (cases "startup L amb cfg")
  case (Inl x)
  obtain e cfg1 evs where x: "x = (e, cfg1, evs)" by (cases x)
  with Inl startup_Inl [of L amb cfg e cfg1 evs] show ?thesis by (simp add: run_def)
next
  case (Inr y)
  obtain cfg1 g_py g_t evs where y: "y = (cfg1, g_py, g_t, evs)" by (cases y)
  from Inr y startup_Inr [of L amb cfg cfg1 g_py g_t evs]
  have c: "cfg1 = startup_options L amb cfg" and f: "forward_log evs = []" "scalar_log evs = []"
    by simp_all
  from c assms(1) have "count_samples L (data_path cfg1) ''landscape'' = Inr n" by simp
  from prepare_small(1) [OF this assms(2)] obtain e where "prepare L cfg1 g_py g_t = Inl e"
    by blast
  with Inr y f show ?thesis by (simp add: run_def)
qed

lemma checkpoint_str_raises:
  assumes "checkpoint_every (opt s) = PyStr x" and "jl_len (train_loader p) \<noteq> 0"
  shows "\<exists>s'. run_epoch L p s epoch = Inl (TypeError, s') \<and>
           saved_paths (events s') = saved_paths (events s)"
proof -
  from assms(2) obtain s1 where 1: "train_epoch L p s epoch = Inr s1"
    by (simp add: train_epoch_cases)
  from train_epoch_Inr [OF 1] have o: "opt s1 = opt s"
    and e: "events s1 = events s @
           replicate (length (jl_iter (train_loader p) epoch)) (Forward True (grad_enabled s)) @
           [AddScalar ''Train Error'' (train_error L p (model s) epoch) epoch]"
    by simp_all
  from o assms(1) have "checkpoint s1 epoch = Inl (TypeError, s1)"
    by (simp add: checkpoint_cases py_mod_def)
  from run_epoch_Inl_checkpoint [OF 1 this] e show ?thesis by simp
qed

lemma run_epoch_forward_log:
  assumes "run_epoch L p s epoch = Inr s'"
  shows "forward_log (events s') =
     forward_log (events s) @
     replicate (length (jl_iter (train_loader p) epoch)) (True, grad_enabled s) @
     replicate (length (jl_iter (test_loader p) epoch)) (False, False) @
     replicate (length (test_idxs p)) (False, grad_enabled s)"
proof -
  from run_epoch_Inr [OF assms] obtain r where
    "events s' = events s @ epoch_events L p s epoch r" by blast
  then show ?thesis by (simp add: epoch_events_forward)
qed

lemma evaluation_keeps_model:
  assumes "run_epoch L p s epoch = Inr s'"
  shows "model s' = trained_model L (model s) (jl_iter (train_loader p) epoch)"
  using run_epoch_Inr [OF assms] by blast








section \<open>The claims\<close>

text \<open>
  C1. The checkpoint interval is declared without a type, so an interval given on the
  command line reaches the loop as a string: the remainder taken at line 130 raises
  TypeError in the first epoch, after the training pass and its scalar, and neither a
  checkpoint nor the final file is written. Here the script is run for five epochs with
  \<^verbatim>\<open>--checkpoint_every 5\<close>. (With the interval left at its default the run follows the
  claim: \<open>checkpoints_of_finished_run\<close> above.)
\<close>

theorem checkpoint_every_given_raises:
  "main demo_lib demo_ambient
     (no_args\<lparr> arg_epochs := Some 5, arg_manual_seed := Some 7,
               arg_checkpoint_every := Some ''5'' \<rparr>) =
   Inr (Crashed TypeError
          (default_options\<lparr> epochs := 5, manual_seed := Some 7,
                            checkpoint_every := PyStr ''5'' \<rparr>)
          [SummaryWriter ''log/01-01-20_00:00'', AddText ''Options'' 0,
           MakeDirs ''checkpoints'', Forward True True, AddScalar ''Train Error'' 10 0])"
  by code_simp



text \<open>
  C3. For both orientations the split succeeds, the train split has
  \<open>\<lfloor>0.8 * N\<rfloor>\<close> members, the test split the remaining \<open>N - \<lfloor>0.8 * N\<rfloor>\<close>, and the
  two sizes sum to \<open>N\<close>, the number of samples of that orientation.
\<close>

theorem split_sizes:
  "count_samples L (data_path cfg) ''landscape'' = Inr nl \<and>
   count_samples L (data_path cfg) ''portrait'' = Inr np \<longrightarrow>
   (\<exists>trl tel trp tep g'.
      make_splits L cfg g = Inr (((trl, tel), (trp, tep)), g') \<and>
      int (length (indices trl)) = \<lfloor>0.8 * real nl\<rfloor> \<and>
      int (length (indices tel)) = int nl - \<lfloor>0.8 * real nl\<rfloor> \<and>
      length (indices trl) + length (indices tel) = nl \<and>
      int (length (indices trp)) = \<lfloor>0.8 * real np\<rfloor> \<and>
      int (length (indices tep)) = int np - \<lfloor>0.8 * real np\<rfloor> \<and>
      length (indices trp) + length (indices tep) = np)"
proof
  assume a: "count_samples L (data_path cfg) ''landscape'' = Inr nl \<and>
    count_samples L (data_path cfg) ''portrait'' = Inr np"
  from make_splits_sizes [of L cfg nl np g] a
  obtain trl tel trp tep g' where
    m: "make_splits L cfg g = Inr (((trl, tel), (trp, tep)), g')"
    and s: "int (length (indices trl)) = train_size_of nl"
      "int (length (indices tel)) = int nl - train_size_of nl"
      "int (length (indices trp)) = train_size_of np"
      "int (length (indices tep)) = int np - train_size_of np"
    by blast
  from s have "length (indices trl) + length (indices tel) = nl"
    and "length (indices trp) + length (indices tep) = np"
    by linarith+
  with m s show "\<exists>trl tel trp tep g'.
      make_splits L cfg g = Inr (((trl, tel), (trp, tep)), g') \<and>
      int (length (indices trl)) = \<lfloor>0.8 * real nl\<rfloor> \<and>
      int (length (indices tel)) = int nl - \<lfloor>0.8 * real nl\<rfloor> \<and>
      length (indices trl) + length (indices tel) = nl \<and>
      int (length (indices trp)) = \<lfloor>0.8 * real np\<rfloor> \<and>
      int (length (indices tep)) = int np - \<lfloor>0.8 * real np\<rfloor> \<and>
      length (indices trp) + length (indices tep) = np"
    unfolding train_size_of_def by blast
qed

theorem split_sizes_witness:
  "count_samples demo_lib (data_path demo_options) ''landscape'' = Inr 11 \<and>
   count_samples demo_lib (data_path demo_options) ''portrait'' = Inr 11 \<and>
   (\<exists>trl tel trp tep g'.
      make_splits demo_lib demo_options 7 = Inr (((trl, tel), (trp, tep)), g') \<and>
      int (length (indices trl)) = 8 \<and>
      int (length (indices tel)) = 3 \<and>
      length (indices trl) + length (indices tel) = 11 \<and>
      int (length (indices trp)) = 8 \<and>
      int (length (indices tep)) = 3 \<and>
      length (indices trp) + length (indices tep) = 11)"
proof -
  have h: "count_samples demo_lib (data_path demo_options) ''landscape'' = Inr 11 \<and>
    count_samples demo_lib (data_path demo_options) ''portrait'' = Inr 11"
    by (simp add: demo_lib_def)
  have f: "\<lfloor>0.8 * real (11::nat)\<rfloor> = 8" by simp
  from split_sizes [of demo_lib demo_options 11 11 7] h
  show ?thesis unfolding f by simp
qed




text \<open>
  C5, as amended. Every completed epoch logs the two scalars, \<^verbatim>\<open>Train Error\<close> and
  \<^verbatim>\<open>Test Error\<close>, once each at the epoch's step, and one image grid for each
  visualisation index at that step, whether or not the epoch writes a checkpoint.
\<close>

theorem epoch_logs_scalars_and_images:
  "run_epoch L p s epoch = Inr s' \<longrightarrow>
     scalar_log (events s') =
       scalar_log (events s) @
       [(''Train Error'', train_error L p (model s) epoch, epoch),
        (''Test Error'',
         test_error L p (trained_model L (model s) (jl_iter (train_loader p) epoch)) epoch,
         epoch)] \<and>
     image_log (events s') =
       image_log (events s) @ map (\<lambda>idx. (image_tag idx, epoch)) (test_idxs p)"
proof
  assume a: "run_epoch L p s epoch = Inr s'"
  from run_epoch_Inr [OF a] obtain r where
    "events s' = events s @ epoch_events L p s epoch r" by blast
  then show "scalar_log (events s') =
       scalar_log (events s) @
       [(''Train Error'', train_error L p (model s) epoch, epoch),
        (''Test Error'',
         test_error L p (trained_model L (model s) (jl_iter (train_loader p) epoch)) epoch,
         epoch)] \<and>
     image_log (events s') =
       image_log (events s) @ map (\<lambda>idx. (image_tag idx, epoch)) (test_idxs p)"
    by (simp add: epoch_events_scalars epoch_events_images)
qed

theorem epoch_logs_scalars_and_images_witness:
  "run_epoch demo_lib demo_prepared demo_state 0 =
     Inr (after_epoch (run_epoch demo_lib demo_prepared demo_state 0)) \<and>
   scalar_log (events (after_epoch (run_epoch demo_lib demo_prepared demo_state 0))) =
     [(''Train Error'', 10, 0), (''Test Error'', 1, 0)] \<and>
   image_log (events (after_epoch (run_epoch demo_lib demo_prepared demo_state 0))) =
     [(''0:Original|Estimated|Actual'', 0), (''1:Original|Estimated|Actual'', 0),
      (''2:Original|Estimated|Actual'', 0)]"
proof -
  let ?s' = "after_epoch (run_epoch demo_lib demo_prepared demo_state 0)"
  have h: "run_epoch demo_lib demo_prepared demo_state 0 = Inr ?s'" by code_simp
  have v: "train_error demo_lib demo_prepared (model demo_state) 0 = 10"
    "test_error demo_lib demo_prepared
       (trained_model demo_lib (model demo_state) (jl_iter (train_loader demo_prepared) 0)) 0 = 1"
    "scalar_log (events demo_state) = []"
    "image_log (events demo_state) = []"
    "map (\<lambda>idx. (image_tag idx, 0::nat)) (test_idxs demo_prepared) =
       [(''0:Original|Estimated|Actual'', 0), (''1:Original|Estimated|Actual'', 0),
        (''2:Original|Estimated|Actual'', 0)]"
    by code_simp+
  from epoch_logs_scalars_and_images [of demo_lib demo_prepared demo_state 0 ?s'] h
  show ?thesis by (simp only: v append_Nil simp_thms)
qed

text \<open>
  C5, as stated, fails: in a run of one epoch with the default interval of ten, the three
  image grids are logged at step 0 although no checkpoint is written in that epoch (the
  only file saved is the final one).
\<close>

theorem images_without_checkpoint:
  "image_log (out_events (run demo_lib demo_ambient demo_options)) =
     [(''0:Original|Estimated|Actual'', 0), (''1:Original|Estimated|Actual'', 0),
      (''2:Original|Estimated|Actual'', 0)] \<and>
   saved_paths (out_events (run demo_lib demo_ambient demo_options)) =
     [''final_models/t_final.pt'']"
  by code_simp

text \<open>
  C6, as amended. The options a run ends with, completed or not, are the parsed options
  with one possible change: when no seed was given, \<^verbatim>\<open>manual_seed\<close> holds the seed drawn
  at start-up. When a seed was given the record is unchanged. The epoch loop leaves the
  record as it finds it, wherever it stops.
\<close>

theorem options_after_parsing:
  "out_opt (run L amb cfg) =
     (case manual_seed cfg of
        None \<Rightarrow> cfg\<lparr> manual_seed := Some (fst (randint L (py_rng0 amb) 1 10000)) \<rparr>
      | Some s \<Rightarrow> cfg) \<and>
   opt (after_epoch (run_epochs L p st es)) = opt st"
  by (simp add: out_opt_run startup_options_def run_epochs_opt)

theorem options_after_parsing_witness:
  "out_opt (run demo_lib demo_ambient demo_options) = demo_options \<and>
   out_opt (run demo_lib demo_ambient (default_options\<lparr> epochs := 1 \<rparr>)) =
     default_options\<lparr> epochs := 1, manual_seed := Some 42 \<rparr> \<and>
   opt (after_epoch (run_epochs demo_lib demo_prepared demo_state [0, 1])) = opt demo_state"
proof -
  have a: "manual_seed demo_options = Some 7"
    and b: "manual_seed (default_options\<lparr> epochs := 1 \<rparr>) = None"
    and c: "fst (randint demo_lib (py_rng0 demo_ambient) 1 10000) = 42"
    by (simp_all add: demo_options_def default_options_def demo_lib_def)
  from options_after_parsing [of demo_lib demo_ambient demo_options demo_prepared demo_state
      "[0, 1]"]
    options_after_parsing [of demo_lib demo_ambient "default_options\<lparr> epochs := 1 \<rparr>"
      demo_prepared demo_state "[0, 1]"]
  show ?thesis by (simp add: a b c)
qed

text \<open>
  C6, as stated, fails: run without \<^verbatim>\<open>--manual_seed\<close>, the script assigns the drawn
  seed to \<^verbatim>\<open>opt.manual_seed\<close> after parsing (line 44).
\<close>

theorem seed_is_stored_in_options:
  "manual_seed (default_options\<lparr> epochs := 1 \<rparr>) = None \<and>
   manual_seed (out_opt (run demo_lib demo_ambient (default_options\<lparr> epochs := 1 \<rparr>))) =
     Some 42"
  by code_simp

text \<open>
  C7. Whatever the epoch's outcome, the \<^verbatim>\<open>Train Error\<close> scalars it adds to the log
  are: none when the exposed length of the joined loader is zero (the division raises),
  and otherwise exactly one, the losses of the epoch's batches added up in order from
  \<^verbatim>\<open>0.0\<close> and divided by the exposed length. For the joined loader as modelled from the
  spec, the exposed length is the number of batches a pass yields, which is the number of
  losses added.
\<close>

theorem train_error_is_mean_loss:
  "scalars_tagged ''Train Error'' (events (after_epoch (run_epoch L p s epoch))) =
     scalars_tagged ''Train Error'' (events s) @
     (if jl_len (train_loader p) = 0 then []
      else [(fdiv L
               (foldl (fadd L) (fzero L)
                  (epoch_losses L (model s) (jl_iter (train_loader p) epoch)))
               (int (jl_len (train_loader p))),
             epoch)]) \<and>
   (train_loader p = JoinedDataLoader_spec c A B \<longrightarrow>
      jl_len (train_loader p) = length (jl_iter (train_loader p) epoch) \<and>
      length (epoch_losses L (model s) (jl_iter (train_loader p) epoch)) =
        jl_len (train_loader p))"
proof (intro conjI impI)
  show "scalars_tagged ''Train Error'' (events (after_epoch (run_epoch L p s epoch))) =
     scalars_tagged ''Train Error'' (events s) @
     (if jl_len (train_loader p) = 0 then []
      else [(fdiv L
               (foldl (fadd L) (fzero L)
                  (epoch_losses L (model s) (jl_iter (train_loader p) epoch)))
               (int (jl_len (train_loader p))),
             epoch)])"
    using run_epoch_after [of L p s epoch] by (simp add: train_error_def)
next
  assume a: "train_loader p = JoinedDataLoader_spec c A B"
  show "jl_len (train_loader p) = length (jl_iter (train_loader p) epoch)"
    unfolding a by (rule JoinedDataLoader_spec_len)
  have "length (epoch_losses L m bs) = length bs" for m bs
    by (induction bs arbitrary: m) simp_all
  then show "length (epoch_losses L (model s) (jl_iter (train_loader p) epoch)) =
        jl_len (train_loader p)"
    unfolding a by (simp add: JoinedDataLoader_spec_len [symmetric])
qed

theorem train_error_is_mean_loss_witness:
  "train_loader uneven_prepared = JoinedDataLoader_spec (+) long_loader short_loader \<and>
   n_batches long_loader = 3 \<and> n_batches short_loader = 2 \<and>
   epoch_losses demo_lib (model demo_state) (jl_iter (train_loader uneven_prepared) 0) =
     [10, 20] \<and>
   scalars_tagged ''Train Error''
     (events (after_epoch (run_epoch demo_lib uneven_prepared demo_state 0))) = [(15, 0)] \<and>
   jl_len (train_loader uneven_prepared) = length (jl_iter (train_loader uneven_prepared) 0) \<and>
   length (epoch_losses demo_lib (model demo_state) (jl_iter (train_loader uneven_prepared) 0)) =
     jl_len (train_loader uneven_prepared) \<and>
   jl_len (train_loader uneven_prepared) = 2"
proof -
  have h: "train_loader uneven_prepared = JoinedDataLoader_spec (+) long_loader short_loader"
    by (simp add: uneven_prepared_def)
  have n: "n_batches long_loader = 3" "n_batches short_loader = 2"
    by (simp_all add: long_loader_def short_loader_def)
  have l: "jl_len (train_loader uneven_prepared) = 2"
    by (simp add: h JoinedDataLoader_spec_def n)
  have v: "epoch_losses demo_lib (model demo_state) (jl_iter (train_loader uneven_prepared) 0) =
      [10, 20]"
    "scalars_tagged ''Train Error'' (events demo_state) = []"
    by code_simp+
  have d: "fdiv demo_lib (foldl (fadd demo_lib) (fzero demo_lib) [10, 20]) (int 2) = 15"
    by (simp add: demo_lib_def)
  from train_error_is_mean_loss [of demo_lib uneven_prepared demo_state 0 "(+)" long_loader
      short_loader] h
  have c: "scalars_tagged ''Train Error''
       (events (after_epoch (run_epoch demo_lib uneven_prepared demo_state 0))) =
     scalars_tagged ''Train Error'' (events demo_state) @
     (if jl_len (train_loader uneven_prepared) = 0 then []
      else [(fdiv demo_lib
               (foldl (fadd demo_lib) (fzero demo_lib)
                  (epoch_losses demo_lib (model demo_state)
                     (jl_iter (train_loader uneven_prepared) 0)))
               (int (jl_len (train_loader uneven_prepared))),
             0)])"
    and e: "jl_len (train_loader uneven_prepared) =
      length (jl_iter (train_loader uneven_prepared) 0)"
    and f: "length (epoch_losses demo_lib (model demo_state)
        (jl_iter (train_loader uneven_prepared) 0)) = jl_len (train_loader uneven_prepared)"
    by blast+
  have "scalars_tagged ''Train Error''
       (events (after_epoch (run_epoch demo_lib uneven_prepared demo_state 0))) = [(15, 0)]"
    unfolding c v l using d by simp
  with h n v e f l show ?thesis by blast
qed

text \<open>
  C8. The forward passes of a run of one epoch, each with the mode of the network and
  whether gradient tracking was enabled: the training pass, the test pass made inside
  \<^verbatim>\<open>torch.no_grad()\<close>, and the three visualisation passes of line 149, which are made
  outside it, with gradient tracking enabled. (In the model no pass of the evaluating
  phase changes the parameters: \<open>evaluation_keeps_model\<close> above.)
\<close>

theorem visualisation_pass_tracks_gradients:
  "forward_log (out_events (run demo_lib demo_ambient demo_options)) =
     [(True, True), (False, False), (False, True), (False, True), (False, True)]"
  by code_simp

text \<open>
  C9. Drawing the three indices raises ValueError exactly when the landscape test split
  has fewer than three members; the test split of \<open>N\<close> samples has at least three
  members exactly when \<open>N\<close> is at least eleven; and with fewer than eleven landscape
  samples the run stops before any forward pass or scalar, with the ValueError of the
  draw whenever the splits, the loaders and the model were built.
\<close>

theorem visualisation_needs_three:
  "((\<exists>e. pick_test_idxs L g te = Inl e) = (length (indices te) < 3)) \<and>
   (length (indices te) < 3 \<longrightarrow> pick_test_idxs L g te = Inl ValueError) \<and>
   ((3 \<le> int n - \<lfloor>0.8 * real n\<rfloor>) = (11 \<le> n)) \<and>
   (count_samples L (data_path cfg) ''landscape'' = Inr n \<and> n < 11 \<longrightarrow>
      (\<exists>e cfgen evs. run L amb cfg = Crashed e cfgen evs \<and>
         forward_log evs = [] \<and> scalar_log evs = []) \<and>
      (make_splits L cfg g_t = Inr (splits, gen) \<and> make_loaders L cfg splits = Inr ld \<and>
       make_model L cfg gen = Inr mg \<longrightarrow> prepare L cfg g_py g_t = Inl ValueError))"
proof (intro conjI impI)
  show "(\<exists>e. pick_test_idxs L g te = Inl e) = (length (indices te) < 3)"
    by (auto simp add: pick_test_idxs_cases)
  show "(3 \<le> int n - \<lfloor>0.8 * real n\<rfloor>) = (11 \<le> n)"
    using test_size_ge_3 [of n] by (simp add: train_size_of_def)
next
  assume "length (indices te) < 3"
  then show "pick_test_idxs L g te = Inl ValueError" by (simp add: pick_test_idxs_cases)
next
  assume "count_samples L (data_path cfg) ''landscape'' = Inr n \<and> n < 11"
  then show "\<exists>e cfgen evs. run L amb cfg = Crashed e cfgen evs \<and>
         forward_log evs = [] \<and> scalar_log evs = []"
    by (simp add: run_small)
next
  assume "count_samples L (data_path cfg) ''landscape'' = Inr n \<and> n < 11"
    and "make_splits L cfg g_t = Inr (splits, gen) \<and> make_loaders L cfg splits = Inr ld \<and>
       make_model L cfg gen = Inr mg"
  then show "prepare L cfg g_py g_t = Inl ValueError"
    using prepare_small(2) [of L cfg n g_t splits gen ld mg g_py] by blast
qed

theorem visualisation_needs_three_witness:
  "pick_test_idxs small_lib 7 (snd (fst small_splits)) = Inl ValueError \<and>
   length (indices (snd (fst small_splits))) < 3 \<and>
   count_samples small_lib (data_path demo_options) ''landscape'' = Inr 10 \<and>
   make_splits small_lib demo_options 7 = Inr (small_splits, 9) \<and>
   make_model small_lib demo_options 9 = Inr (0, 9) \<and>
   prepare small_lib demo_options 7 7 = Inl ValueError \<and>
   (\<exists>e cfg1 evs. run small_lib demo_ambient demo_options = Crashed e cfg1 evs \<and>
      forward_log evs = [] \<and> scalar_log evs = [])"
proof -
  have h1: "length (indices (snd (fst small_splits))) < 3" by (simp add: small_splits_def)
  have h2: "count_samples small_lib (data_path demo_options) ''landscape'' = Inr 10 \<and>
    (10::nat) < 11"
    by (simp add: small_lib_def)
  have h3: "make_splits small_lib demo_options 7 = Inr (small_splits, 9)" by code_simp
  have h4: "make_loaders small_lib demo_options small_splits =
    Inr (JoinedDataLoader_spec (+) demo_loader demo_loader,
         JoinedDataLoader_spec (+) demo_loader demo_loader)"
    by (simp add: make_loaders_def small_lib_def demo_lib_def small_splits_def
        demo_options_def default_options_def demo_loader_def)
  have h5: "make_model small_lib demo_options 9 = Inr (0, 9)" by code_simp
  from visualisation_needs_three [where L = small_lib and g = 7
      and te = "snd (fst small_splits)" and n = 10 and cfg = demo_options
      and amb = demo_ambient and g_t = 7 and splits = small_splits and gen = 9
      and ld = "(JoinedDataLoader_spec (+) demo_loader demo_loader,
                 JoinedDataLoader_spec (+) demo_loader demo_loader)"
      and mg = "(0, 9)" and g_py = 7]
    h1 h2 h3 h4 h5
  show ?thesis by blast
qed

text \<open>
  C10. When the joined test loader yields no batch in an epoch, the epoch does not
  complete: it stops with an exception, which is the ZeroDivisionError of the average
  whenever the training pass and the checkpoint test got through. A completed epoch
  therefore had a test batch, and its \<^verbatim>\<open>Test Error\<close> is the sum of the test losses
  divided by the number of test batches.
\<close>

theorem empty_test_loader_stops_epoch:
  "(jl_iter (test_loader p) epoch = [] \<longrightarrow>
      (\<exists>e s1. run_epoch L p s epoch = Inl (e, s1)) \<and>
      (jl_len (train_loader p) \<noteq> 0 \<and>
       py_mod (int epoch + 1) (checkpoint_every (opt s)) = Inr r \<longrightarrow>
         (\<exists>s1. run_epoch L p s epoch = Inl (ZeroDivisionError, s1)))) \<and>
   (run_epoch L p s epoch = Inr s' \<longrightarrow>
      jl_iter (test_loader p) epoch \<noteq> [] \<and>
      scalars_tagged ''Test Error'' (events s') =
        scalars_tagged ''Test Error'' (events s) @
        [(fdiv L
            (foldl (fadd L) (fzero L)
               (map (eval_loss L (trained_model L (model s) (jl_iter (train_loader p) epoch)))
                  (jl_iter (test_loader p) epoch)))
            (int (length (jl_iter (test_loader p) epoch))),
          epoch)])"
proof (intro conjI impI)
  assume "jl_iter (test_loader p) epoch = []"
  then show "\<exists>e s1. run_epoch L p s epoch = Inl (e, s1)"
    by (rule run_epoch_empty_test)
next
  assume "jl_iter (test_loader p) epoch = []"
    and "jl_len (train_loader p) \<noteq> 0 \<and>
      py_mod (int epoch + 1) (checkpoint_every (opt s)) = Inr r"
  then show "\<exists>s1. run_epoch L p s epoch = Inl (ZeroDivisionError, s1)"
    by (simp add: run_epoch_empty_test_zero_division)
next
  assume a: "run_epoch L p s epoch = Inr s'"
  from run_epoch_Inr [OF a] show "jl_iter (test_loader p) epoch \<noteq> []" by blast
  from run_epoch_Inr [OF a] obtain r' where
    "events s' = events s @ epoch_events L p s epoch r'" by blast
  then show "scalars_tagged ''Test Error'' (events s') =
        scalars_tagged ''Test Error'' (events s) @
        [(fdiv L
            (foldl (fadd L) (fzero L)
               (map (eval_loss L (trained_model L (model s) (jl_iter (train_loader p) epoch)))
                  (jl_iter (test_loader p) epoch)))
            (int (length (jl_iter (test_loader p) epoch))),
          epoch)]"
    by (simp add: epoch_events_test_error test_error_def)
qed

theorem empty_test_loader_stops_epoch_witness:
  "jl_iter (test_loader empty_test_prepared) 0 = [] \<and>
   jl_len (train_loader empty_test_prepared) \<noteq> 0 \<and>
   py_mod (int 0 + 1) (checkpoint_every (opt demo_state)) = Inr 1 \<and>
   (\<exists>s1. run_epoch demo_lib empty_test_prepared demo_state 0 = Inl (ZeroDivisionError, s1)) \<and>
   run_epoch demo_lib demo_prepared demo_state 0 =
     Inr (after_epoch (run_epoch demo_lib demo_prepared demo_state 0)) \<and>
   jl_iter (test_loader demo_prepared) 0 \<noteq> [] \<and>
   scalars_tagged ''Test Error''
     (events (after_epoch (run_epoch demo_lib demo_prepared demo_state 0))) = [(1, 0)]"
proof -
  let ?s' = "after_epoch (run_epoch demo_lib demo_prepared demo_state 0)"
  have h1: "jl_iter (test_loader empty_test_prepared) 0 = []"
    by (simp add: empty_test_prepared_def)
  have h2: "jl_len (train_loader empty_test_prepared) \<noteq> 0"
    by (simp add: empty_test_prepared_def demo_prepared_def JoinedDataLoader_spec_def
        demo_loader_def)
  have h3: "py_mod (int 0 + 1) (checkpoint_every (opt demo_state)) = Inr 1"
    by (simp add: py_mod_def demo_state_def demo_options_def default_options_def)
  have h4: "run_epoch demo_lib demo_prepared demo_state 0 = Inr ?s'" by code_simp
  have v: "scalars_tagged ''Test Error'' (events ?s') = [(1, 0)]" by code_simp
  from empty_test_loader_stops_epoch [of empty_test_prepared 0 demo_lib demo_state 1 ?s']
    empty_test_loader_stops_epoch [of demo_prepared 0 demo_lib demo_state 1 ?s']
    h1 h2 h3 h4 v
  show ?thesis by blast
qed

end
